theory Spec2Isabelle
  imports Main "HOL-Library.Sublist"
begin

section \<open>The command layer of git-lfs (commands/run.go)\<close>

text \<open>
  A shallow embedding of \<^verbatim>\<open>commands/run.go\<close>: the deferred registry of command
  builders, the assembly of the root command in \<^verbatim>\<open>Run\<close>, the help and usage
  functions, the completion command and the HTTP statistics hook.

  Go strings are byte sequences; \<open>string\<close> (a list of \<open>char\<close>, each one byte) is
  used for them throughout. A pointer to a command that may be \<^verbatim>\<open>nil\<close> is an
  \<open>option\<close>. A Go function value stored in a command is named by a tag, since
  the code only stores it, compares it with \<^verbatim>\<open>nil\<close> and calls it.
\<close>

subsection \<open>Strings: the standard library functions the file calls\<close>

text \<open>
  \<^verbatim>\<open>unicode.IsSpace\<close> holds of the six ASCII characters tab, newline, vertical tab,
  form feed, carriage return and space, of U+0085 and U+00A0, and of the code points
  with the White_Space property: U+1680, U+2000 to U+200A, U+2028, U+2029, U+202F,
  U+205F and U+3000. \<open>space_runes\<close> lists their UTF-8 encodings.
\<close>

definition space_runes :: "string list" where
  "space_runes =
     [[CHR 0x09], [CHR 0x0A], [CHR 0x0B], [CHR 0x0C], [CHR 0x0D], [CHR 0x20],
      [CHR 0xC2, CHR 0x85], [CHR 0xC2, CHR 0xA0],
      [CHR 0xE1, CHR 0x9A, CHR 0x80],
      [CHR 0xE2, CHR 0x80, CHR 0x80], [CHR 0xE2, CHR 0x80, CHR 0x81],
      [CHR 0xE2, CHR 0x80, CHR 0x82], [CHR 0xE2, CHR 0x80, CHR 0x83],
      [CHR 0xE2, CHR 0x80, CHR 0x84], [CHR 0xE2, CHR 0x80, CHR 0x85],
      [CHR 0xE2, CHR 0x80, CHR 0x86], [CHR 0xE2, CHR 0x80, CHR 0x87],
      [CHR 0xE2, CHR 0x80, CHR 0x88], [CHR 0xE2, CHR 0x80, CHR 0x89],
      [CHR 0xE2, CHR 0x80, CHR 0x8A],
      [CHR 0xE2, CHR 0x80, CHR 0xA8], [CHR 0xE2, CHR 0x80, CHR 0xA9],
      [CHR 0xE2, CHR 0x80, CHR 0xAF],
      [CHR 0xE2, CHR 0x81, CHR 0x9F],
      [CHR 0xE3, CHR 0x80, CHR 0x80]]"

text \<open>
  The number of bytes of the white-space rune a string starts with, 0 when it starts
  with none. UTF-8 is prefix-free and Go decodes shortest forms only, so the first
  rune is a white-space rune exactly when one of the encodings is a prefix.
\<close>

definition leading_space :: "string list \<Rightarrow> string \<Rightarrow> nat" where
  "leading_space runes s =
     (case List.find (\<lambda>r. r \<noteq> [] \<and> prefix r s) runes of
        None \<Rightarrow> 0
      | Some r \<Rightarrow> length r)"

function trim_runes :: "string list \<Rightarrow> string \<Rightarrow> string" where
  "trim_runes runes s =
     (if leading_space runes s = 0 then s
      else trim_runes runes (drop (leading_space runes s) s))"
  by pat_completeness auto
termination
  by (relation "measure (\<lambda>(runes, s). length s)")
     (auto simp: leading_space_def prefix_def find_Some_iff split: option.splits)

text \<open>
  \<^verbatim>\<open>strings.TrimSpace\<close>: white-space runes are removed at the start, then at the end
  of what is left. At the end Go steps back to the nearest byte that starts a rune and
  decodes from there, which finds a white-space rune exactly when one of the encodings
  is a suffix; on the reversed string that is a prefix of the reversed encodings.
\<close>

definition TrimSpace :: "string \<Rightarrow> string" where
  "TrimSpace s =
     rev (trim_runes (map rev space_runes) (rev (trim_runes space_runes s)))"

text \<open>
  \<^verbatim>\<open>bytes.Replace(s, old, new, n)\<close> for a non-empty \<open>old\<close>: the first \<open>n\<close>
  non-overlapping occurrences of \<open>old\<close> are replaced, all of them when \<open>n < 0\<close>.
  (For an empty \<open>old\<close> Go inserts \<open>new\<close> between runes; the file never passes one, and
  the model returns \<open>s\<close> there.)
\<close>

function bytes_Replace :: "string \<Rightarrow> string \<Rightarrow> string \<Rightarrow> int \<Rightarrow> string" where
  "bytes_Replace s old new n =
     (if n = 0 \<or> old = [] \<or> s = [] then s
      else if prefix old s
        then new @ bytes_Replace (drop (length old) s) old new (n - 1)
        else hd s # bytes_Replace (tl s) old new n)"
  by pat_completeness auto
termination
  by (relation "measure (\<lambda>(s, old, new, n). length s)") auto

text \<open>
  \<^verbatim>\<open>%d\<close> of an integer: its decimal digits, with a minus sign when negative.
  \<open>decimal\<close> is only applied to numbers that are not negative, so \<open>digit_char\<close>
  only to 0, ..., 9.
\<close>

definition digit_char :: "int \<Rightarrow> char" where
  "digit_char d = ''0123456789'' ! nat d"

function decimal :: "int \<Rightarrow> string" where
  "decimal n = (if n < 10 then [digit_char n] else decimal (n div 10) @ [digit_char (n mod 10)])"
  by pat_completeness auto
termination
  by (relation "measure nat") auto

definition itoa :: "int \<Rightarrow> string" where
  "itoa i = (if i < 0 then CHR ''-'' # decimal (- i) else decimal i)"

declare trim_runes.simps [simp del]
declare bytes_Replace.simps [simp del]
declare decimal.simps [simp del]

text \<open>
  \<^verbatim>\<open>filepath.Join\<close>: the non-empty elements, separated by the path separator. (Go
  also cleans the result of \<^verbatim>\<open>.\<close>, \<^verbatim>\<open>..\<close> and repeated separators; that
  normalisation is not modelled, and nothing below depends on it.)
\<close>

fun join_sep :: "string list \<Rightarrow> string" where
  "join_sep [] = []"
| "join_sep [x] = x"
| "join_sep (x # y # ys) = x @ ''/'' @ join_sep (y # ys)"

definition filepath_Join :: "string list \<Rightarrow> string" where
  "filepath_Join elems = join_sep (filter (\<lambda>e. e \<noteq> []) elems)"

subsection \<open>Commands\<close>

text \<open>
  The function values the file stores in a command. \<open>Fn_run n\<close> and \<open>Fn_pre_run n\<close>
  stand for the functions of the callers of \<^verbatim>\<open>RegisterCommand\<close>, which this file
  never looks into.
\<close>

datatype run_fn = Fn_gitlfsCommand | Fn_completionRun | Fn_helpRun | Fn_run nat

datatype pre_run_fn = Fn_setupHTTPLogger | Fn_pre_run nat

datatype help_fn = Fn_helpCommand

datatype usage_fn = Fn_usageCommand

text \<open>The argument validators of cobra that the file names.\<close>

datatype positional_args = ExactArgs nat | OnlyValidArgs | MatchAll "positional_args list"

datatype flag = BoolVarP (flag_name: string) (flag_shorthand: string) (flag_value: bool) (flag_usage: string)

text \<open>
  The fields of \<^verbatim>\<open>cobra.Command\<close> that the file sets. \<open>cmd_Run\<close> is the field
  \<^verbatim>\<open>Run\<close> and \<open>help_cmd\<close> the field behind \<^verbatim>\<open>SetHelpCommand\<close>; they are renamed
  because \<^verbatim>\<open>Run\<close> and \<^verbatim>\<open>helpCommand\<close> are functions of the file as well.
\<close>

datatype command = Command
  (Use: string)
  (Short: string)
  (Long: string)
  (DisableFlagsInUseLine: bool)
  (ValidArgs: "string list")
  (Args: "positional_args option")
  (cmd_Run: "run_fn option")
  (PreRun: "pre_run_fn option")
  (commands: "command list")
  (help_cmd: "command option")
  (helpTemplate: "string option")
  (helpFunc: "help_fn option")
  (usageFunc: "usage_fn option")
  (flags: "flag list")

text \<open>\<^verbatim>\<open>&cobra.Command{}\<close>: every field at its zero value.\<close>

definition zero_Command :: command where
  "zero_Command = Command [] [] [] False [] None None None [] None None None None []"

text \<open>Assignments to one field of a command, for the fields the file assigns.\<close>

fun set_Use :: "string \<Rightarrow> command \<Rightarrow> command" where
  "set_Use x (Command u s l d v a r p cs hc ht hf uf fl) = Command x s l d v a r p cs hc ht hf uf fl"

fun set_Run :: "run_fn option \<Rightarrow> command \<Rightarrow> command" where
  "set_Run x (Command u s l d v a r p cs hc ht hf uf fl) = Command u s l d v a x p cs hc ht hf uf fl"

fun set_PreRun :: "pre_run_fn option \<Rightarrow> command \<Rightarrow> command" where
  "set_PreRun x (Command u s l d v a r p cs hc ht hf uf fl) = Command u s l d v a r x cs hc ht hf uf fl"

text \<open>
  The setters of cobra the file calls. \<^verbatim>\<open>AddCommand\<close> appends the child to the
  parent's list of commands.
\<close>

fun AddCommand :: "command \<Rightarrow> command \<Rightarrow> command" where
  "AddCommand (Command u s l d v a r p cs hc ht hf uf fl) x =
     Command u s l d v a r p (cs @ [x]) hc ht hf uf fl"

fun SetHelpCommand :: "command \<Rightarrow> command \<Rightarrow> command" where
  "SetHelpCommand (Command u s l d v a r p cs hc ht hf uf fl) x =
     Command u s l d v a r p cs (Some x) ht hf uf fl"

fun SetHelpTemplate :: "command \<Rightarrow> string \<Rightarrow> command" where
  "SetHelpTemplate (Command u s l d v a r p cs hc ht hf uf fl) x =
     Command u s l d v a r p cs hc (Some x) hf uf fl"

fun SetHelpFunc :: "command \<Rightarrow> help_fn \<Rightarrow> command" where
  "SetHelpFunc (Command u s l d v a r p cs hc ht hf uf fl) x =
     Command u s l d v a r p cs hc ht (Some x) uf fl"

fun SetUsageFunc :: "command \<Rightarrow> usage_fn \<Rightarrow> command" where
  "SetUsageFunc (Command u s l d v a r p cs hc ht hf uf fl) x =
     Command u s l d v a r p cs hc ht hf (Some x) fl"

fun Flags_add :: "command \<Rightarrow> flag \<Rightarrow> command" where
  "Flags_add (Command u s l d v a r p cs hc ht hf uf fl) x =
     Command u s l d v a r p cs hc ht hf uf (fl @ [x])"

text \<open>\<^verbatim>\<open>Name\<close>: the first word of \<^verbatim>\<open>Use\<close>.\<close>

definition Name :: "command \<Rightarrow> string" where
  "Name c = takeWhile (\<lambda>ch. ch \<noteq> CHR '' '') (Use c)"

text \<open>
  \<^verbatim>\<open>NewCommand\<close> creates a sub command from a name and a run function; its
  \<^verbatim>\<open>PreRun\<close> hook is \<^verbatim>\<open>setupHTTPLogger\<close>.
\<close>

definition NewCommand :: "string \<Rightarrow> run_fn option \<Rightarrow> command" where
  "NewCommand name runFn =
     set_PreRun (Some Fn_setupHTTPLogger) (set_Run runFn (set_Use name zero_Command))"

subsection \<open>The world outside, and the collaborators\<close>

text \<open>A Go \<^verbatim>\<open>error\<close> value, and a run-time panic.\<close>

datatype error =
    AcceptsArgs nat nat  \<comment> \<open>\<^verbatim>\<open>accepts n arg(s), received m\<close>\<close>
  | InvalidArgument string  \<comment> \<open>\<^verbatim>\<open>invalid argument "v" for ...\<close>\<close>
  | ErrHelp  \<comment> \<open>\<^verbatim>\<open>flag.ErrHelp\<close>\<close>
  | Error string  \<comment> \<open>any other error, by its message\<close>

datatype panic = IndexOutOfRange

text \<open>An argument of a message format.\<close>

datatype fmt_arg = Str string | Strs "string list" | Err error

text \<open>
  The shared configuration object; the file reads its local log directory only.
\<close>

record config =
  LocalLogDir :: string

text \<open>
  What the file reads and writes outside itself: the command line after the program
  name, the environment, the clock, the two output streams, the directories and files
  it creates, the log sink of the shared API client, and the package variable \<^verbatim>\<open>rootVersion\<close> behind the version flag.
  \<open>mkdir_error\<close> and \<open>create_error\<close> are the operating system's answers: the error
  with which creating that directory or file fails, if it does.
\<close>

record world =
  argv :: "string list"
  environ :: "string \<rightharpoonup> string"
  unix_time :: int
  stdout :: string
  stderr :: string
  dirs :: "string list"
  files :: "string list"
  mkdir_error :: "string \<Rightarrow> error option"
  create_error :: "string \<Rightarrow> error option"
  log_sink :: "string option"
  rootVersion :: bool

text \<open>
  The code this file calls and does not contain, taken as parameters: the man page
  table, the translation function, the version command, cobra's script generators,
  command lookup, default help and usage, the functions of the registered commands,
  and the steps of \<^verbatim>\<open>Run\<close> that are calls into other packages. Each of them
  returns: a call that ends the process instead (a panic or an exit inside a sub
  command) never comes back to this file and is not modelled.
\<close>

record collaborators =
  ManPages :: "string \<rightharpoonup> string"
  Tr_Get :: "string \<Rightarrow> fmt_arg list \<Rightarrow> string"
  versionCommand :: "command \<Rightarrow> string list \<Rightarrow> world \<Rightarrow> world"
  GenBashCompletion :: "command \<Rightarrow> string"
  GenZshCompletion :: "command \<Rightarrow> string"
  GenFishCompletion :: "command \<Rightarrow> bool \<Rightarrow> string"
  GenPowerShellCompletionWithDesc :: "command \<Rightarrow> string"
  Find :: "command \<Rightarrow> string list \<Rightarrow> command option \<times> error option"
  default_Help :: "command \<Rightarrow> string list \<Rightarrow> world \<Rightarrow> world"
  default_Usage :: "command \<Rightarrow> world \<Rightarrow> error option \<times> world"
  user_run :: "nat \<Rightarrow> command \<Rightarrow> string list \<Rightarrow> world \<Rightarrow> world"
  user_pre_run :: "nat \<Rightarrow> command \<Rightarrow> string list \<Rightarrow> world \<Rightarrow> world"
  log_SetOutput :: "world \<Rightarrow> world"
  InitializeLocale :: "world \<Rightarrow> world"
  canonicalizeEnvironment :: "world \<Rightarrow> world"
  config_New :: "world \<Rightarrow> config \<times> world"
  Execute :: "config \<Rightarrow> command \<Rightarrow> world \<Rightarrow> error option \<times> world"
  closeAPIClient :: "world \<Rightarrow> world"

text \<open>\<^verbatim>\<open>os.Getenv\<close>: the value of the variable, empty when it is not set.\<close>

definition os_Getenv :: "string \<Rightarrow> world \<Rightarrow> string" where
  "os_Getenv key w = (case environ w key of None \<Rightarrow> [] | Some v \<Rightarrow> v)"

text \<open>\<^verbatim>\<open>fmt.Println\<close> and \<^verbatim>\<open>fmt.Fprintln(os.Stderr, ...)\<close> of one string.\<close>

definition fmt_Println :: "string \<Rightarrow> world \<Rightarrow> world" where
  "fmt_Println s w = w\<lparr>stdout := stdout w @ s @ [CHR 0x0A]\<rparr>"

definition fmt_Fprintln_Stderr :: "string \<Rightarrow> world \<Rightarrow> world" where
  "fmt_Fprintln_Stderr s w = w\<lparr>stderr := stderr w @ s @ [CHR 0x0A]\<rparr>"

text \<open>Writing bytes to \<^verbatim>\<open>os.Stdout\<close>.\<close>

definition write_Stdout :: "string \<Rightarrow> world \<Rightarrow> world" where
  "write_Stdout s w = w\<lparr>stdout := stdout w @ s\<rparr>"

text \<open>
  \<^verbatim>\<open>Println\<close> of a cobra command writes the line to the command's output stream,
  which is standard error as long as nobody redirects it; this file does not.
\<close>

definition cobra_Println :: "string \<Rightarrow> world \<Rightarrow> world" where
  "cobra_Println s w = fmt_Fprintln_Stderr s w"

subsection \<open>Help and usage\<close>

definition printHelp :: "collaborators \<Rightarrow> string \<Rightarrow> world \<Rightarrow> world" where
  "printHelp K commandName w =
     (let commandName = (if commandName = ''--help'' then ''git-lfs'' else commandName) in
      (case ManPages K commandName of
         Some txt \<Rightarrow> fmt_Println (TrimSpace txt) w
       | None \<Rightarrow> fmt_Println (Tr_Get K ''Sorry, no usage text found for %q'' [Str commandName]) w))"

definition helpCommand :: "collaborators \<Rightarrow> command \<Rightarrow> string list \<Rightarrow> world \<Rightarrow> world" where
  "helpCommand K cmd args w =
     (if length args = 0 then printHelp K ''git-lfs'' w else printHelp K (args ! 0) w)"

definition usageCommand :: "collaborators \<Rightarrow> command \<Rightarrow> world \<Rightarrow> error option \<times> world" where
  "usageCommand K cmd w = (None, printHelp K (Name cmd) w)"

text \<open>
  \<^verbatim>\<open>Usage\<close> and \<^verbatim>\<open>HelpFunc\<close> of cobra call the function set on the command and,
  when none is set, cobra's own. \<open>root\<close> is the command that carries the functions:
  a command without one of its own uses its parent's.
\<close>

definition Usage :: "collaborators \<Rightarrow> command \<Rightarrow> world \<Rightarrow> error option \<times> world" where
  "Usage K root w =
     (case usageFunc root of
        Some Fn_usageCommand \<Rightarrow> usageCommand K root w
      | None \<Rightarrow> default_Usage K root w)"

definition HelpFunc :: "collaborators \<Rightarrow> command \<Rightarrow> command \<Rightarrow> string list \<Rightarrow> world \<Rightarrow> world" where
  "HelpFunc K root cmd args w =
     (case helpFunc root of
        Some Fn_helpCommand \<Rightarrow> helpCommand K cmd args w
      | None \<Rightarrow> default_Help K cmd args w)"

definition gitlfsCommand :: "collaborators \<Rightarrow> command \<Rightarrow> string list \<Rightarrow> world \<Rightarrow> world" where
  "gitlfsCommand K cmd args w =
     (let w1 = versionCommand K cmd args w in
      if \<not> rootVersion w1 then snd (Usage K cmd w1) else w1)"

text \<open>
  The run function of the help command. \<open>root\<close> is \<^verbatim>\<open>c.Root()\<close>. The index
  \<^verbatim>\<open>args[0]\<close> is only evaluated when the first lookup fails, and panics on an empty
  argument list.
\<close>

definition helpcmd_Run ::
  "collaborators \<Rightarrow> command \<Rightarrow> command \<Rightarrow> string list \<Rightarrow> world \<Rightarrow> panic + world" where
  "helpcmd_Run K root c args w =
     (let (cmd, e) = Find K root args in
      if e \<noteq> None \<and> args = [] then Inl IndexOutOfRange
      else
        let (cmd, e) =
          (if e \<noteq> None \<and> (args ! 0 = ''config'' \<or> args ! 0 = ''faq'')
           then Find K root [''help''] else (cmd, e))
        in
          if cmd = None \<or> e \<noteq> None
          then Inr (snd (Usage K root
                 (cobra_Println (Tr_Get K ''Unknown help topic %#q'' [Strs args]) w)))
          else Inr (HelpFunc K root (the cmd) args w))"

subsection \<open>The completion command\<close>

definition bash_trailer :: string where
  "bash_trailer = ''_git_lfs() { __start_git-lfs; }'' @ [CHR 0x0A]"

definition zsh_old :: string where
  "zsh_old = ''requestComp=\"${words[1]}''"

definition zsh_new :: string where
  "zsh_new = ''requestComp=\"git-${words[1]#*git-}''"

text \<open>
  The run function of the completion command. \<open>root\<close> is \<^verbatim>\<open>cmd.Root()\<close>. The
  generators of cobra fill a buffer (bash, zsh) or write to standard output (fish,
  powershell); the file ignores the errors they return. The \<^verbatim>\<open>switch\<close> has no
  default case, and \<^verbatim>\<open>args[0]\<close> panics on an empty argument list.
\<close>

definition completionCmd_Run ::
  "collaborators \<Rightarrow> command \<Rightarrow> command \<Rightarrow> string list \<Rightarrow> world \<Rightarrow> panic + world" where
  "completionCmd_Run K root cmd args w =
     (case args of
        [] \<Rightarrow> Inl IndexOutOfRange
      | a # _ \<Rightarrow>
          if a = ''bash'' then
            Inr (write_Stdout (GenBashCompletion K root @ bash_trailer) w)
          else if a = ''zsh'' then
            Inr (write_Stdout (bytes_Replace (GenZshCompletion K root) zsh_old zsh_new 1) w)
          else if a = ''fish'' then
            Inr (write_Stdout (GenFishCompletion K root True) w)
          else if a = ''powershell'' then
            Inr (write_Stdout (GenPowerShellCompletionWithDesc K root) w)
          else Inr w)"

subsection \<open>The HTTP statistics hook\<close>

text \<open>
  The path itself and every prefix of it that ends before a separator: the
  directories that must exist for the path to exist.
\<close>

definition ancestors :: "string \<Rightarrow> string list" where
  "ancestors path =
     [take i path. i \<leftarrow> [1..<length path], path ! i = CHR ''/''] @ [path]"

text \<open>
  Modelled from the spec: \<^verbatim>\<open>tools.MkdirAll\<close> is not part of this file. The spec has
  it create the directory "(and all missing ancestors) if absent", or fail.
\<close>

definition tools_MkdirAll :: "string \<Rightarrow> world \<Rightarrow> error option \<times> world" where
  "tools_MkdirAll path w =
     (case mkdir_error w path of
        Some err \<Rightarrow> (Some err, w)
      | None \<Rightarrow> (None, w\<lparr>dirs := dirs w @ filter (\<lambda>d. d \<notin> set (dirs w)) (ancestors path)\<rparr>))"

text \<open>
  \<^verbatim>\<open>os.Create\<close>: the file exists afterwards, or the call fails. The open file is
  named by its path.
\<close>

definition os_Create :: "string \<Rightarrow> world \<Rightarrow> error + (string \<times> world)" where
  "os_Create path w =
     (case create_error w path of
        Some err \<Rightarrow> Inl err
      | None \<Rightarrow> Inr (path, w\<lparr>files := files w @ filter (\<lambda>f. f \<notin> set (files w)) [path]\<rparr>))"

text \<open>
  Modelled from the spec: \<^verbatim>\<open>LogHTTPStats\<close> of the shared API client is not part of
  this file. The spec has the hook "hand the open file to the shared network-client
  object" as its log sink.
\<close>

definition LogHTTPStats :: "string \<Rightarrow> world \<Rightarrow> world" where
  "LogHTTPStats file w = w\<lparr>log_sink := Some file\<rparr>"

text \<open>
  \<open>cfg\<close> is the package variable \<^verbatim>\<open>cfg\<close>, which \<^verbatim>\<open>Run\<close> assigns before any
  command executes.
\<close>

definition setupHTTPLogger ::
  "collaborators \<Rightarrow> config \<Rightarrow> command \<Rightarrow> string list \<Rightarrow> world \<Rightarrow> world" where
  "setupHTTPLogger K cfg cmd args w =
     (if length (os_Getenv ''GIT_LOG_STATS'' w) < 1 then w
      else
        (let logBase = filepath_Join [LocalLogDir cfg, ''http''] in
         (case tools_MkdirAll logBase w of
            (Some err, w1) \<Rightarrow>
              fmt_Fprintln_Stderr (Tr_Get K ''Error logging HTTP stats: %s'' [Err err]) w1
          | (None, w1) \<Rightarrow>
              (let logFile = ''http-'' @ itoa (unix_time w1) @ ''.log'' in
               (case os_Create (filepath_Join [logBase, logFile]) w1 of
                  Inl err \<Rightarrow>
                    fmt_Fprintln_Stderr (Tr_Get K ''Error logging HTTP stats: %s'' [Err err]) w1
                | Inr (file, w2) \<Rightarrow> LogHTTPStats file w2)))))"

subsection \<open>What cobra does with the fields the file sets\<close>

text \<open>
  The validators, as cobra defines them: \<^verbatim>\<open>ExactArgs(n)\<close> fails unless there are
  exactly \<open>n\<close> arguments; \<^verbatim>\<open>OnlyValidArgs\<close> fails on the first argument that is not
  among \<^verbatim>\<open>ValidArgs\<close> (each cut at its first tab, where a description starts),
  unless \<^verbatim>\<open>ValidArgs\<close> is empty; \<^verbatim>\<open>MatchAll\<close> returns the first error of its
  validators.
\<close>

fun validate :: "positional_args \<Rightarrow> command \<Rightarrow> string list \<Rightarrow> error option"
  and validate_all :: "positional_args list \<Rightarrow> command \<Rightarrow> string list \<Rightarrow> error option" where
  "validate (ExactArgs n) cmd args =
     (if length args \<noteq> n then Some (AcceptsArgs n (length args)) else None)"
| "validate OnlyValidArgs cmd args =
     (if length (ValidArgs cmd) > 0 then
        (let validArgs = map (takeWhile (\<lambda>ch. ch \<noteq> CHR 0x09)) (ValidArgs cmd) in
         (case List.find (\<lambda>v. v \<notin> set validArgs) args of
            Some v \<Rightarrow> Some (InvalidArgument v)
          | None \<Rightarrow> None))
      else None)"
| "validate (MatchAll pargs) cmd args = validate_all pargs cmd args"
| "validate_all [] cmd args = None"
| "validate_all (p # pargs) cmd args =
     (case validate p cmd args of
        Some err \<Rightarrow> Some err
      | None \<Rightarrow> validate_all pargs cmd args)"

text \<open>\<^verbatim>\<open>ValidateArgs\<close>: a command without \<^verbatim>\<open>Args\<close> takes any arguments.\<close>

definition ValidateArgs :: "command \<Rightarrow> string list \<Rightarrow> error option" where
  "ValidateArgs c args = (case Args c of None \<Rightarrow> None | Some pargs \<Rightarrow> validate pargs c args)"

text \<open>Calling a stored function value.\<close>

definition call_pre_run ::
  "collaborators \<Rightarrow> config \<Rightarrow> pre_run_fn \<Rightarrow> command \<Rightarrow> string list \<Rightarrow> world \<Rightarrow> world" where
  "call_pre_run K cfg h c args w =
     (case h of
        Fn_setupHTTPLogger \<Rightarrow> setupHTTPLogger K cfg c args w
      | Fn_pre_run n \<Rightarrow> user_pre_run K n c args w)"

definition call_run ::
  "collaborators \<Rightarrow> command \<Rightarrow> run_fn \<Rightarrow> command \<Rightarrow> string list \<Rightarrow> world \<Rightarrow> panic + world" where
  "call_run K root r c args w =
     (case r of
        Fn_gitlfsCommand \<Rightarrow> Inr (gitlfsCommand K c args w)
      | Fn_completionRun \<Rightarrow> completionCmd_Run K root c args w
      | Fn_helpRun \<Rightarrow> helpcmd_Run K root c args w
      | Fn_run n \<Rightarrow> Inr (user_run K n c args w))"

text \<open>
  What cobra does with the command \<open>c\<close> that the command line selects, once the flags
  are parsed and \<open>args\<close> are the arguments left: a command without a run function
  yields \<^verbatim>\<open>flag.ErrHelp\<close>; the arguments are validated, and an error ends the
  execution there; then \<^verbatim>\<open>PreRun\<close> is called, then \<^verbatim>\<open>Run\<close>.
\<close>

definition execute ::
  "collaborators \<Rightarrow> config \<Rightarrow> command \<Rightarrow> command \<Rightarrow> string list \<Rightarrow> world
     \<Rightarrow> panic + (error option \<times> world)" where
  "execute K cfg root c args w =
     (case cmd_Run c of
        None \<Rightarrow> Inr (Some ErrHelp, w)
      | Some r \<Rightarrow>
          (case ValidateArgs c args of
             Some err \<Rightarrow> Inr (Some err, w)
           | None \<Rightarrow>
               (let w1 = (case PreRun c of None \<Rightarrow> w | Some h \<Rightarrow> call_pre_run K cfg h c args w) in
                (case call_run K root r c args w1 of
                   Inl p \<Rightarrow> Inl p
                 | Inr w2 \<Rightarrow> Inr (None, w2)))))"

subsection \<open>The deferred registry\<close>

text \<open>
  An entry of \<^verbatim>\<open>commandFuncs\<close> is a function without arguments that returns a
  command or \<^verbatim>\<open>nil\<close>. It may read the shared configuration and act on the world.
  The callback \<^verbatim>\<open>fn\<close> of \<^verbatim>\<open>RegisterCommand\<close> receives the pointer to the new
  command: it can change the command's fields, and cannot make the pointer \<^verbatim>\<open>nil\<close>.
\<close>

type_synonym builder = "config \<Rightarrow> world \<Rightarrow> command option \<times> world"

type_synonym customize = "config \<Rightarrow> world \<Rightarrow> command \<Rightarrow> command \<times> world"

text \<open>
  \<^verbatim>\<open>RegisterCommand\<close> appends a builder to \<^verbatim>\<open>commandFuncs\<close>. (The mutex around the
  append is for concurrent callers; the model is sequential.)
\<close>

definition RegisterCommand ::
  "string \<Rightarrow> run_fn option \<Rightarrow> customize option \<Rightarrow> builder list \<Rightarrow> builder list" where
  "RegisterCommand name runFn fn commandFuncs =
     commandFuncs @
       [\<lambda>cfg w.
          (let cmd = NewCommand name runFn in
           (case fn of
              None \<Rightarrow> (Some cmd, w)
            | Some f \<Rightarrow> (let (cmd', w') = f cfg w cmd in (Some cmd', w'))))]"

text \<open>A sequence of registrations, from an empty registry.\<close>

type_synonym registration = "string \<times> run_fn option \<times> customize option"

definition register_all :: "registration list \<Rightarrow> builder list" where
  "register_all regs =
     foldl (\<lambda>commandFuncs (name, runFn, fn). RegisterCommand name runFn fn commandFuncs) [] regs"

subsection \<open>Run\<close>

text \<open>
  The calls \<^verbatim>\<open>Run\<close> makes into other code, in the order it makes them. A builder
  call is recorded with the builder's position in \<^verbatim>\<open>commandFuncs\<close> and with what
  it returned, \<^verbatim>\<open>Execute\<close> with the root command it is called on.
\<close>

datatype call =
    Call_log_SetOutput
  | Call_InitializeLocale
  | Call_canonicalizeEnvironment
  | Call_config_New
  | Call_builder nat "command option"
  | Call_Execute command
  | Call_closeAPIClient

record run_state =
  calls :: "call list"
  ext :: world

definition call :: "call \<Rightarrow> (world \<Rightarrow> world) \<Rightarrow> run_state \<Rightarrow> run_state" where
  "call c f st = \<lparr>calls = calls st @ [c], ext = f (ext st)\<rparr>"

fun text_lines :: "string list \<Rightarrow> string" where
  "text_lines [] = []"
| "text_lines (l # ls) = l @ [CHR 0x0A] @ text_lines ls"

definition completion_Long :: "string \<Rightarrow> string" where
  "completion_Long name = text_lines
     [''To load completions:'',
      [],
      ''Bash:'',
      [],
      ''  $ source <('' @ name @ '' completion bash)'',
      [],
      ''  # To load completions for each session, execute once:'',
      ''  # Linux:'',
      ''  $ '' @ name @ '' completion bash > /etc/bash_completion.d/'' @ name,
      ''  # macOS:'',
      ''  $ '' @ name @ '' completion bash > $(brew --prefix)/etc/bash_completion.d/'' @ name,
      [],
      ''Zsh:'',
      [],
      ''  # If shell completion is not already enabled in your environment,'',
      ''  # you will need to enable it.  You can execute the following once:'',
      [],
      ''  $ echo \"autoload -U compinit; compinit\" >> ~/.zshrc'',
      [],
      ''  # To load completions for each session, execute once:'',
      ''  $ '' @ name @ '' completion zsh > \"${fpath[1]}/_'' @ name @ [CHR 0x22],
      [],
      ''  # You will need to start a new shell for this setup to take effect.'',
      [],
      ''fish:'',
      [],
      ''  $ '' @ name @ '' completion fish | source'',
      [],
      ''  # To load completions for each session, execute once:'',
      ''  $ '' @ name @ '' completion fish > ~/.config/fish/completions/'' @ name @ ''.fish'',
      [],
      ''PowerShell:'',
      [],
      ''  PS> '' @ name @ '' completion powershell | Out-String | Invoke-Expression'',
      [],
      ''  # To load completions for every new session, run:'',
      ''  PS> '' @ name @ '' completion powershell > '' @ name @ ''.ps1'',
      ''  # and source this file from your PowerShell profile.'']"

definition completionCmd :: "command \<Rightarrow> command" where
  "completionCmd root =
     Command ''completion [bash|zsh|fish|powershell]''
       ''Generate completion script''
       (completion_Long (Name root))
       True
       [''bash'', ''zsh'', ''fish'', ''powershell'']
       (Some (MatchAll [ExactArgs 1, OnlyValidArgs]))
       (Some Fn_completionRun)
       None [] None None None None []"

definition helpcmd :: "command \<Rightarrow> command" where
  "helpcmd root =
     Command ''help [command]''
       ''Help about any command''
       (''Help provides help for any command in the application.'' @ [CHR 0x0A] @
        ''Simply type '' @ Name root @ '' help [path to command] for full details.'')
       False [] None
       (Some Fn_helpRun)
       None [] None None None None []"

text \<open>
  The root command with its fixed nodes and settings, as \<^verbatim>\<open>Run\<close> has it before it
  canonicalizes the environment.
\<close>

definition build_root :: command where
  "build_root =
     (let root = NewCommand ''git-lfs'' (Some Fn_gitlfsCommand);
          root = set_PreRun None root;
          root = AddCommand root (completionCmd root);
          root = SetHelpCommand root (helpcmd root);
          root = SetHelpTemplate root ''{{.UsageString}}'';
          root = SetHelpFunc root Fn_helpCommand;
          root = SetUsageFunc root Fn_usageCommand;
          root = Flags_add root (BoolVarP ''version'' ''v'' False [])
      in root)"

text \<open>
  The loop over \<^verbatim>\<open>commandFuncs\<close>: each builder is called, and a command it returns
  is added to the root. \<open>i\<close> is the position of the next builder.
\<close>

fun realize ::
  "config \<Rightarrow> builder list \<Rightarrow> nat \<Rightarrow> command \<Rightarrow> run_state \<Rightarrow> command \<times> run_state" where
  "realize cfg [] i root st = (root, st)"
| "realize cfg (f # fs) i root st =
     (let (cmd, w') = f cfg (ext st);
          st' = \<lparr>calls = calls st @ [Call_builder i cmd], ext = w'\<rparr>;
          root' = (case cmd of None \<Rightarrow> root | Some c \<Rightarrow> AddCommand root c)
      in realize cfg fs (Suc i) root' st')"

text \<open>\<^verbatim>\<open>Run\<close> up to the call of \<^verbatim>\<open>Execute\<close>.\<close>

definition assemble ::
  "collaborators \<Rightarrow> builder list \<Rightarrow> world \<Rightarrow> config \<times> command \<times> run_state" where
  "assemble K commandFuncs w =
     (let st = \<lparr>calls = [], ext = w\<rparr>;
          st = call Call_log_SetOutput (log_SetOutput K) st;
          st = call Call_InitializeLocale (InitializeLocale K) st;
          root = build_root;
          st = call Call_canonicalizeEnvironment (canonicalizeEnvironment K) st;
          (cfg, w') = config_New K (ext st);
          st = \<lparr>calls = calls st @ [Call_config_New], ext = w'\<rparr>;
          (root, st) = realize cfg commandFuncs 0 root st
      in (cfg, root, st))"

text \<open>\<^verbatim>\<open>Run\<close> returns the exit code; the model returns the calls and the world too.\<close>

definition Run :: "collaborators \<Rightarrow> builder list \<Rightarrow> world \<Rightarrow> int \<times> run_state" where
  "Run K commandFuncs w =
     (let (cfg, root, st) = assemble K commandFuncs w;
          (err, w') = Execute K cfg root (ext st);
          st = \<lparr>calls = calls st @ [Call_Execute root], ext = w'\<rparr>;
          st = call Call_closeAPIClient (closeAPIClient K) st
      in if err \<noteq> None then (127, st) else (0, st))"

text \<open>
  What the builders return when each is called once, in order, each in the world the
  one before it left.
\<close>

fun builder_results :: "config \<Rightarrow> builder list \<Rightarrow> world \<Rightarrow> command option list" where
  "builder_results cfg [] w = []"
| "builder_results cfg (f # fs) w = fst (f cfg w) # builder_results cfg fs (snd (f cfg w))"

text \<open>The commands among the results, without the \<^verbatim>\<open>nil\<close>s.\<close>

fun non_nil :: "'a option list \<Rightarrow> 'a list" where
  "non_nil [] = []"
| "non_nil (None # rs) = non_nil rs"
| "non_nil (Some c # rs) = c # non_nil rs"

text \<open>The records of calling builders \<open>i\<close>, \<open>i + 1\<close>, ... with the given results.\<close>

definition builder_calls :: "nat \<Rightarrow> command option list \<Rightarrow> call list" where
  "builder_calls i rs = map (\<lambda>(j, r). Call_builder j r) (zip [i..<i + length rs] rs)"

text \<open>
  The configuration and the world in which the first builder is called: after the log
  output is set, the locale initialized, the environment canonicalized and the
  configuration constructed.
\<close>

definition before_builders :: "collaborators \<Rightarrow> world \<Rightarrow> config \<times> world" where
  "before_builders K w =
     config_New K (canonicalizeEnvironment K (InitializeLocale K (log_SetOutput K w)))"

text \<open>What \<^verbatim>\<open>root.Execute()\<close> returns in \<^verbatim>\<open>Run\<close>, and the world it leaves.\<close>

definition execute_step :: "collaborators \<Rightarrow> builder list \<Rightarrow> world \<Rightarrow> error option \<times> world" where
  "execute_step K commandFuncs w =
     (let (cfg, root, st) = assemble K commandFuncs w in Execute K cfg root (ext st))"

text \<open>
  The directory of the HTTP logs, and the log file of a run that starts at the time of
  the world.
\<close>

definition log_dir :: "config \<Rightarrow> string" where
  "log_dir cfg = filepath_Join [LocalLogDir cfg, ''http'']"

definition log_file :: "config \<Rightarrow> world \<Rightarrow> string" where
  "log_file cfg w = filepath_Join [log_dir cfg, ''http-'' @ itoa (unix_time w) @ ''.log'']"

text \<open>The shells the completion command names in \<^verbatim>\<open>ValidArgs\<close>.\<close>

definition valid_shells :: "string list" where
  "valid_shells = [''bash'', ''zsh'', ''fish'', ''powershell'']"

text \<open>The builder that one call of \<^verbatim>\<open>RegisterCommand\<close> appends.\<close>

definition registered_builder :: "registration \<Rightarrow> builder" where
  "registered_builder reg = last (RegisterCommand (fst reg) (fst (snd reg)) (snd (snd reg)) [])"

subsection \<open>A concrete setting\<close>

text \<open>
  Collaborators and a world to run the definitions on. \<open>simple_Find\<close> is cobra's
  command lookup for arguments without flags in a tree without aliases: it descends
  while the next argument names a child, and it reports an unknown command when
  arguments are left at a root that has children and no \<^verbatim>\<open>Args\<close> validator.
\<close>

fun findNext :: "command list \<Rightarrow> string \<Rightarrow> command option" where
  "findNext [] next = None"
| "findNext (c # cs) next = (if Name c = next then Some c else findNext cs next)"

fun innerfind :: "bool \<Rightarrow> command \<Rightarrow> string list \<Rightarrow> bool \<times> command \<times> string list" where
  "innerfind is_root c [] = (is_root, c, [])"
| "innerfind is_root c (a # as) =
     (case findNext (commands c) a of
        Some cmd \<Rightarrow> innerfind False cmd as
      | None \<Rightarrow> (is_root, c, a # as))"

definition find_rest :: "command \<Rightarrow> string list \<Rightarrow> command \<times> string list \<times> error option" where
  "find_rest root args =
     (let (is_root, c, rest) = innerfind True root args in
      (c, rest,
       if Args c = None \<and> commands c \<noteq> [] \<and> is_root \<and> rest \<noteq> []
       then Some (Error (''unknown command '' @ hd rest)) else None))"

definition simple_Find :: "command \<Rightarrow> string list \<Rightarrow> command option \<times> error option" where
  "simple_Find root args = (let (c, rest, err) = find_rest root args in (Some c, err))"

definition attach_help :: "command \<Rightarrow> command" where
  "attach_help root = (case help_cmd root of None \<Rightarrow> root | Some h \<Rightarrow> AddCommand root h)"

text \<open>
  The message of an error. (cobra's own messages about an argument or an unknown
  command also name the command path and may add suggestions; they are shortened
  here.)
\<close>

fun error_text :: "error \<Rightarrow> string" where
  "error_text (AcceptsArgs n m) =
     ''accepts '' @ itoa (int n) @ '' arg(s), received '' @ itoa (int m)"
| "error_text (InvalidArgument v) = ''invalid argument '' @ v"
| "error_text ErrHelp = ''pflag: help requested''"
| "error_text (Error msg) = msg"

definition report_error :: "error \<Rightarrow> world \<Rightarrow> world" where
  "report_error e w = fmt_Fprintln_Stderr (''Error: '' @ error_text e) w"

text \<open>
  The usage cobra prints after a command failed: the usage function set on the root is
  called on the command. With \<^verbatim>\<open>usageCommand\<close> the usage goes to standard output
  and cobra, which collected nothing, prints an empty line.
\<close>

definition usage_after_error :: "collaborators \<Rightarrow> command \<Rightarrow> command \<Rightarrow> world \<Rightarrow> world" where
  "usage_after_error K root c w =
     (case usageFunc root of
        Some Fn_usageCommand \<Rightarrow> cobra_Println [] (snd (usageCommand K c w))
      | None \<Rightarrow> snd (default_Usage K c w))"

text \<open>
  A stand-in for cobra's \<^verbatim>\<open>Execute\<close> on a command line without flags, to run the
  examples below. The help command is attached and the command is looked up; a failed
  lookup is reported on standard error and returned. Otherwise \<open>execute\<close> runs the
  command. On \<^verbatim>\<open>flag.ErrHelp\<close> the help function is called with the command line
  and no error is returned. Any other error is reported on standard error, the usage
  of the command is printed, and the error is returned. A panic of a run function
  ends the process, which a function that returns cannot show: the stand-in returns
  an error there, and no command line of the examples reaches it.
\<close>

definition simple_Execute ::
  "collaborators \<Rightarrow> config \<Rightarrow> command \<Rightarrow> world \<Rightarrow> error option \<times> world" where
  "simple_Execute K cfg root w =
     (let root' = attach_help root;
          (c, rest, err) = find_rest root' (argv w)
      in (case err of
            Some e \<Rightarrow>
              (Some e,
               fmt_Fprintln_Stderr
                 (''Run '' @ [CHR 0x27] @ Name root' @ '' --help'' @ [CHR 0x27] @ '' for usage.'')
                 (report_error e w))
          | None \<Rightarrow>
              (case execute K cfg root' c rest w of
                 Inl p \<Rightarrow> (Some (Error ''panic''), w)
               | Inr (None, w1) \<Rightarrow> (None, w1)
               | Inr (Some e, w1) \<Rightarrow>
                   if e = ErrHelp then (None, HelpFunc K root' c (argv w) w1)
                   else (Some e, usage_after_error K root' c (report_error e w1)))))"

fun show_arg :: "fmt_arg \<Rightarrow> string" where
  "show_arg (Str s) = s"
| "show_arg (Strs ss) = concat ss"
| "show_arg (Err e) = error_text e"

definition example_Tr :: "string \<Rightarrow> fmt_arg list \<Rightarrow> string" where
  "example_Tr msg args = msg @ concat (map (\<lambda>a. '' | '' @ show_arg a) args)"

definition example_ManPages :: "string \<rightharpoonup> string" where
  "example_ManPages =
     [''git-lfs'' \<mapsto> [CHR 0x0A] @ ''git-lfs(1)'' @ [CHR 0x0A],
      ''help'' \<mapsto> ''git-lfs-help'',
      ''config'' \<mapsto> ''git-lfs-config(5)'']"

definition example_zsh :: string where
  "example_zsh = ''a; requestComp=\"${words[1]} b; requestComp=\"${words[1]} c''"

definition example_K0 :: collaborators where
  "example_K0 =
     \<lparr>ManPages = example_ManPages,
      Tr_Get = example_Tr,
      versionCommand = (\<lambda>c args. fmt_Println ''git-lfs/3.x''),
      GenBashCompletion = (\<lambda>root. ''# bash completion for '' @ Name root @ [CHR 0x0A]),
      GenZshCompletion = (\<lambda>root. example_zsh),
      GenFishCompletion = (\<lambda>root desc. ''# fish''),
      GenPowerShellCompletionWithDesc = (\<lambda>root. ''# powershell''),
      Find = simple_Find,
      default_Help = (\<lambda>c args w. w),
      default_Usage = (\<lambda>c w. (None, w)),
      user_run = (\<lambda>n c args. fmt_Println (''ran '' @ Name c)),
      user_pre_run = (\<lambda>n c args w. w),
      log_SetOutput = (\<lambda>w. w),
      InitializeLocale = (\<lambda>w. w),
      canonicalizeEnvironment = (\<lambda>w. w),
      config_New = (\<lambda>w. (\<lparr>LocalLogDir = ''/repo/.git/lfs/logs''\<rparr>, w)),
      Execute = (\<lambda>cfg root w. (None, w)),
      closeAPIClient = (\<lambda>w. w)\<rparr>"

definition example_K :: collaborators where
  "example_K = example_K0\<lparr>Execute := simple_Execute example_K0\<rparr>"

definition example_world :: world where
  "example_world =
     \<lparr>argv = [], environ = Map.empty, unix_time = 1700000000,
      stdout = [], stderr = [], dirs = [''/repo''], files = [],
      mkdir_error = (\<lambda>p. None), create_error = (\<lambda>p. None),
      log_sink = None, rootVersion = False\<rparr>"

definition example_cfg :: config where
  "example_cfg = \<lparr>LocalLogDir = ''/repo/.git/lfs/logs''\<rparr>"

text \<open>A customize callback that clears the \<^verbatim>\<open>PreRun\<close> hook.\<close>

definition clear_PreRun :: customize where
  "clear_PreRun cfg w cmd = (set_PreRun None cmd, w)"

definition example_regs :: "registration list" where
  "example_regs =
     [(''env'', Some (Fn_run 0), None),
      (''version'', Some (Fn_run 1), Some clear_PreRun)]"

definition example_root :: command where
  "example_root = attach_help build_root"

definition world_logging :: world where
  "world_logging = example_world\<lparr>environ := [''GIT_LOG_STATS'' \<mapsto> ''1'']\<rparr>"

definition world_mkdir_fails :: world where
  "world_mkdir_fails = world_logging\<lparr>mkdir_error := (\<lambda>p. Some (Error ''permission denied''))\<rparr>"

definition world_create_fails :: world where
  "world_create_fails = world_logging\<lparr>create_error := (\<lambda>p. Some (Error ''disk full''))\<rparr>"

section \<open>Properties\<close>

subsection \<open>The registry loop\<close>

lemma length_builder_results [simp]: "length (builder_results cfg fs w) = length fs"
  by (induction fs arbitrary: w) auto

lemma builder_calls_Nil [simp]: "builder_calls i [] = []"
  by (simp add: builder_calls_def)

lemma builder_calls_Cons: "builder_calls i (r # rs) = Call_builder i r # builder_calls (Suc i) rs"
  by (simp add: builder_calls_def upt_rec)

lemma realize_calls:
  "calls (snd (realize cfg fs i root st)) =
     calls st @ builder_calls i (builder_results cfg fs (ext st))"
proof (induction fs arbitrary: i root st)
  case Nil
  then show ?case by simp
next
  case (Cons f fs)
  then show ?case
    by (simp add: builder_calls_Cons split: prod.splits)
qed

lemma realize_root:
  "fst (realize cfg fs i root st) =
     foldl AddCommand root (non_nil (builder_results cfg fs (ext st)))"
proof (induction fs arbitrary: i root st)
  case Nil
  then show ?case by simp
next
  case (Cons f fs)
  then show ?case
    by (auto split: prod.splits option.splits)
qed

lemma commands_AddCommand [simp]: "commands (AddCommand c x) = commands c @ [x]"
  by (cases c) simp

lemma PreRun_AddCommand [simp]: "PreRun (AddCommand c x) = PreRun c"
  by (cases c) simp

lemma commands_foldl_AddCommand: "commands (foldl AddCommand c xs) = commands c @ xs"
  by (induction xs arbitrary: c) auto

lemma PreRun_foldl_AddCommand: "PreRun (foldl AddCommand c xs) = PreRun c"
  by (induction xs arbitrary: c) auto

lemma closeAPIClient_notin_builder_calls: "Call_closeAPIClient \<notin> set (builder_calls i rs)"
  by (auto simp: builder_calls_def dest!: set_zip_rightD)

lemma count_builder_calls: "count_list (builder_calls i rs) Call_closeAPIClient = 0"
  using closeAPIClient_notin_builder_calls by (simp add: count_list_0_iff)

subsection \<open>Run\<close>

lemma assemble_calls:
  "calls (snd (snd (assemble K fs w))) =
     [Call_log_SetOutput, Call_InitializeLocale, Call_canonicalizeEnvironment, Call_config_New] @
     builder_calls 0 (builder_results (fst (before_builders K w)) fs (snd (before_builders K w)))"
  by (simp add: assemble_def call_def before_builders_def Let_def realize_calls split: prod.splits)

lemma assemble_root:
  "fst (snd (assemble K fs w)) =
     foldl AddCommand build_root
       (non_nil (builder_results (fst (before_builders K w)) fs (snd (before_builders K w))))"
  by (simp add: assemble_def call_def before_builders_def Let_def realize_root split: prod.splits)

lemma Run_calls:
  "calls (snd (Run K fs w)) =
     calls (snd (snd (assemble K fs w))) @
       [Call_Execute (fst (snd (assemble K fs w))), Call_closeAPIClient]"
  by (simp add: Run_def call_def Let_def split: prod.splits)

lemma Run_code:
  "fst (Run K fs w) = (if fst (execute_step K fs w) = None then 0 else 127)"
  by (simp add: Run_def execute_step_def Let_def split: prod.splits)

lemma Run_ext:
  "ext (snd (Run K fs w)) = closeAPIClient K (snd (execute_step K fs w))"
  by (simp add: Run_def execute_step_def call_def Let_def split: prod.splits)

text \<open>
  C1. When the execute step returns no error, \<^verbatim>\<open>Run\<close> returns 0; when it returns an
  error, whichever it is, \<^verbatim>\<open>Run\<close> returns 127; and \<^verbatim>\<open>Run\<close> returns no other code.
\<close>

theorem Run_exit_code:
  "(fst (execute_step K commandFuncs w) = None \<longrightarrow> fst (Run K commandFuncs w) = 0) \<and>
   (fst (execute_step K commandFuncs w) \<noteq> None \<longrightarrow> fst (Run K commandFuncs w) = 127) \<and>
   (fst (Run K commandFuncs w) = 0 \<or> fst (Run K commandFuncs w) = 127)"
  by (simp add: Run_code)

theorem Run_exit_code_witness:
  "fst (execute_step example_K (register_all example_regs)
          (example_world\<lparr>argv := [''nosuch'']\<rparr>)) \<noteq> None \<and>
   fst (Run example_K (register_all example_regs) (example_world\<lparr>argv := [''nosuch'']\<rparr>)) = 127 \<and>
   fst (execute_step example_K (register_all example_regs)
          (example_world\<lparr>argv := [''env'']\<rparr>)) = None \<and>
   fst (Run example_K (register_all example_regs) (example_world\<lparr>argv := [''env'']\<rparr>)) = 0"
proof -
  have failing: "fst (execute_step example_K (register_all example_regs)
      (example_world\<lparr>argv := [''nosuch'']\<rparr>)) \<noteq> None"
    by code_simp
  have succeeding: "fst (execute_step example_K (register_all example_regs)
      (example_world\<lparr>argv := [''env'']\<rparr>)) = None"
    by code_simp
  show ?thesis
    using failing succeeding
      Run_exit_code [of example_K "register_all example_regs" "example_world\<lparr>argv := [''nosuch'']\<rparr>"]
      Run_exit_code [of example_K "register_all example_regs" "example_world\<lparr>argv := [''env'']\<rparr>"]
    by blast
qed

text \<open>
  C2. The calls of \<^verbatim>\<open>Run\<close> end with \<^verbatim>\<open>Execute\<close> followed by \<^verbatim>\<open>closeAPIClient\<close>;
  \<^verbatim>\<open>closeAPIClient\<close> is called exactly once, whatever \<^verbatim>\<open>Execute\<close> returned, and the
  world \<^verbatim>\<open>Run\<close> leaves is the one \<^verbatim>\<open>closeAPIClient\<close> made of the world after
  \<^verbatim>\<open>Execute\<close>.
\<close>

theorem Run_closes_once:
  "calls (snd (Run K commandFuncs w)) =
     calls (snd (snd (assemble K commandFuncs w))) @
       [Call_Execute (fst (snd (assemble K commandFuncs w))), Call_closeAPIClient] \<and>
   count_list (calls (snd (Run K commandFuncs w))) Call_closeAPIClient = 1 \<and>
   ext (snd (Run K commandFuncs w)) = closeAPIClient K (snd (execute_step K commandFuncs w))"
  by (simp add: Run_calls Run_ext assemble_calls count_builder_calls)

theorem Run_closes_once_witness:
  "count_list (calls (snd (Run example_K (register_all example_regs)
      (example_world\<lparr>argv := [''nosuch'']\<rparr>)))) Call_closeAPIClient = 1 \<and>
   count_list (calls (snd (Run example_K (register_all example_regs)
      (example_world\<lparr>argv := [''env'']\<rparr>)))) Call_closeAPIClient = 1"
  using
    Run_closes_once [of example_K "register_all example_regs" "example_world\<lparr>argv := [''nosuch'']\<rparr>"]
    Run_closes_once [of example_K "register_all example_regs" "example_world\<lparr>argv := [''env'']\<rparr>"]
  by blast


subsection \<open>Registration and realization\<close>

lemma RegisterCommand_append:
  "RegisterCommand name runFn fn commandFuncs = commandFuncs @ [registered_builder (name, runFn, fn)]"
  by (simp add: RegisterCommand_def registered_builder_def)

lemma foldl_RegisterCommand:
  "foldl (\<lambda>commandFuncs (name, runFn, fn). RegisterCommand name runFn fn commandFuncs) fs regs =
     fs @ map registered_builder regs"
  by (induction regs arbitrary: fs) (auto simp: RegisterCommand_append)

lemma register_all_map: "register_all regs = map registered_builder regs"
  by (simp add: register_all_def foldl_RegisterCommand)

lemma registered_builder_eq:
  "fst (registered_builder (name, runFn, fn) cfg w) =
     Some (case fn of
             None \<Rightarrow> NewCommand name runFn
           | Some f \<Rightarrow> fst (f cfg w (NewCommand name runFn)))"
  by (simp add: registered_builder_def RegisterCommand_def Let_def split: option.splits prod.splits)

lemma registered_builder_Some: "\<exists>cmd. fst (registered_builder reg cfg w) = Some cmd"
  by (cases reg) (simp add: registered_builder_eq)

lemma builder_results_nth:
  "i < length fs \<Longrightarrow> \<exists>w'. builder_results cfg fs w ! i = fst ((fs ! i) cfg w')"
proof (induction fs arbitrary: i w)
  case Nil
  then show ?case by simp
next
  case (Cons f fs)
  show ?case
  proof (cases i)
    case 0
    then show ?thesis by auto
  next
    case (Suc j)
    with Cons.prems have "j < length fs" by simp
    from Cons.IH [OF this, of "snd (f cfg w)"] Suc show ?thesis by auto
  qed
qed

lemma registered_results_nth:
  assumes "i < length regs"
  shows "\<exists>w''. builder_results cfg (register_all regs) w ! i =
    fst (registered_builder (regs ! i) cfg w'')"
  using assms builder_results_nth [of i "register_all regs" cfg w]
  by (auto simp: register_all_map)

lemma non_nil_all_Some: "None \<notin> set rs \<Longrightarrow> length (non_nil rs) = length rs"
  by (induction rs rule: non_nil.induct) auto

lemma registered_results_Some: "None \<notin> set (builder_results cfg (register_all regs) w)"
proof
  assume "None \<in> set (builder_results cfg (register_all regs) w)"
  then obtain i where i: "i < length regs"
    and none: "builder_results cfg (register_all regs) w ! i = None"
    by (auto simp: in_set_conv_nth register_all_map)
  from registered_results_nth [OF i] obtain w' where
    "builder_results cfg (register_all regs) w ! i = fst (registered_builder (regs ! i) cfg w')"
    by blast
  with none registered_builder_Some [of "regs ! i" cfg w'] show False
    by simp
qed

lemma builder_calls_nth:
  "builder_calls i rs = map (\<lambda>j. Call_builder (i + j) (rs ! j)) [0..<length rs]"
proof (induction rs arbitrary: i)
  case Nil
  then show ?case by simp
next
  case (Cons r rs)
  have "map (\<lambda>j. Call_builder (i + j) ((r # rs) ! j)) [0..<length (r # rs)] =
      Call_builder i r # map (\<lambda>j. Call_builder (i + Suc j) (rs ! j)) [0..<length rs]"
    by (simp add: upt_rec [of 0] map_Suc_upt [symmetric] del: upt_Suc)
  then show ?case
    by (simp add: builder_calls_Cons Cons.IH)
qed

lemma PreRun_build_root: "PreRun build_root = None"
  by (simp add: build_root_def NewCommand_def zero_Command_def completionCmd_def helpcmd_def Let_def)

lemma PreRun_NewCommand: "PreRun (NewCommand name runFn) = Some Fn_setupHTTPLogger"
  by (simp add: NewCommand_def zero_Command_def)

text \<open>
  C3. \<^verbatim>\<open>Run\<close> calls \<^verbatim>\<open>canonicalizeEnvironment\<close>, then \<^verbatim>\<open>config.New\<close>, then every
  builder of \<^verbatim>\<open>commandFuncs\<close> once, in the order of the list, and then nothing else
  before \<^verbatim>\<open>Execute\<close>; the builders see the configuration that \<^verbatim>\<open>config.New\<close>
  returned in the canonicalized environment. The children of the root are then those
  it had before, followed by the commands the builders returned, without the
  \<^verbatim>\<open>nil\<close>s, in that order. The list that a sequence of calls of
  \<^verbatim>\<open>RegisterCommand\<close> leaves has one builder for each call, in the order of the calls.
\<close>

theorem builders_realized:
  "fst (assemble K commandFuncs w) = fst (before_builders K w) \<and>
   length (builder_results (fst (before_builders K w)) commandFuncs (snd (before_builders K w)))
     = length commandFuncs \<and>
   calls (snd (snd (assemble K commandFuncs w))) =
     [Call_log_SetOutput, Call_InitializeLocale, Call_canonicalizeEnvironment, Call_config_New] @
     map (\<lambda>i. Call_builder i
            (builder_results (fst (before_builders K w)) commandFuncs (snd (before_builders K w)) ! i))
       [0..<length commandFuncs] \<and>
   commands (fst (snd (assemble K commandFuncs w))) =
     commands build_root @
     non_nil (builder_results (fst (before_builders K w)) commandFuncs (snd (before_builders K w))) \<and>
   length (register_all regs) = length regs \<and>
   (\<forall>i<length regs. register_all regs ! i = registered_builder (regs ! i))"
proof (intro conjI)
  show "fst (assemble K commandFuncs w) = fst (before_builders K w)"
    by (simp add: assemble_def call_def before_builders_def Let_def split: prod.splits)
  show "length (builder_results (fst (before_builders K w)) commandFuncs (snd (before_builders K w)))
     = length commandFuncs"
    by simp
  show "calls (snd (snd (assemble K commandFuncs w))) =
     [Call_log_SetOutput, Call_InitializeLocale, Call_canonicalizeEnvironment, Call_config_New] @
     map (\<lambda>i. Call_builder i
            (builder_results (fst (before_builders K w)) commandFuncs (snd (before_builders K w)) ! i))
       [0..<length commandFuncs]"
    by (simp add: assemble_calls builder_calls_nth)
  show "commands (fst (snd (assemble K commandFuncs w))) =
     commands build_root @
     non_nil (builder_results (fst (before_builders K w)) commandFuncs (snd (before_builders K w)))"
    by (simp add: assemble_root commands_foldl_AddCommand)
  show "length (register_all regs) = length regs"
    by (simp add: register_all_map)
  show "\<forall>i<length regs. register_all regs ! i = registered_builder (regs ! i)"
    by (simp add: register_all_map)
qed

theorem builders_realized_witness:
  "map Use (commands (fst (snd (assemble example_K (register_all example_regs) example_world)))) =
     [''completion [bash|zsh|fish|powershell]'', ''env'', ''version''] \<and>
   register_all example_regs ! 1 = registered_builder (example_regs ! 1)"
proof -
  have a: "map Use (commands build_root @
      non_nil (builder_results (fst (before_builders example_K example_world))
        (register_all example_regs) (snd (before_builders example_K example_world)))) =
     [''completion [bash|zsh|fish|powershell]'', ''env'', ''version'']"
    by code_simp
  have b: "(1::nat) < length example_regs"
    by (simp add: example_regs_def)
  show ?thesis
    using a b
      builders_realized [where K = example_K and commandFuncs = "register_all example_regs"
        and w = example_world and regs = example_regs]
    by simp
qed

text \<open>
  C10, as amended. A builder that \<^verbatim>\<open>RegisterCommand\<close> appended never returns
  \<^verbatim>\<open>nil\<close>, so realization adds one node to the root for each registration. The
  node is what the customize callback made of the command from \<^verbatim>\<open>NewCommand\<close>,
  and that command itself when there is no callback. \<^verbatim>\<open>NewCommand\<close> sets the
  diagnostics hook as \<^verbatim>\<open>PreRun\<close>, so a node registered without a callback carries
  it; the root carries none, before and after realization.
\<close>

theorem registered_nodes:
  "None \<notin> set (builder_results cfg (register_all regs) w') \<and>
   length (commands (fst (snd (assemble K (register_all regs) w)))) =
     length (commands build_root) + length regs \<and>
   PreRun (NewCommand name runFn) = Some Fn_setupHTTPLogger \<and>
   (\<forall>i<length regs. \<exists>w''.
      builder_results cfg (register_all regs) w' ! i =
        Some (case snd (snd (regs ! i)) of
                None \<Rightarrow> NewCommand (fst (regs ! i)) (fst (snd (regs ! i)))
              | Some f \<Rightarrow> fst (f cfg w'' (NewCommand (fst (regs ! i)) (fst (snd (regs ! i))))))) \<and>
   (\<forall>i<length regs. snd (snd (regs ! i)) = None \<longrightarrow>
      builder_results cfg (register_all regs) w' ! i =
        Some (NewCommand (fst (regs ! i)) (fst (snd (regs ! i))))) \<and>
   PreRun build_root = None \<and>
   PreRun (fst (snd (assemble K (register_all regs) w))) = None"
proof -
  have each: "\<exists>w''. builder_results cfg (register_all regs) w' ! i =
        Some (case snd (snd (regs ! i)) of
                None \<Rightarrow> NewCommand (fst (regs ! i)) (fst (snd (regs ! i)))
              | Some f \<Rightarrow> fst (f cfg w'' (NewCommand (fst (regs ! i)) (fst (snd (regs ! i))))))"
    if i: "i < length regs" for i
  proof -
    from registered_results_nth [OF i] obtain w'' where
      "builder_results cfg (register_all regs) w' ! i = fst (registered_builder (regs ! i) cfg w'')"
      by blast
    moreover have "regs ! i = (fst (regs ! i), fst (snd (regs ! i)), snd (snd (regs ! i)))"
      by simp
    ultimately have "builder_results cfg (register_all regs) w' ! i =
        Some (case snd (snd (regs ! i)) of
                None \<Rightarrow> NewCommand (fst (regs ! i)) (fst (snd (regs ! i)))
              | Some f \<Rightarrow> fst (f cfg w'' (NewCommand (fst (regs ! i)) (fst (snd (regs ! i))))))"
      using registered_builder_eq
        [of "fst (regs ! i)" "fst (snd (regs ! i))" "snd (snd (regs ! i))" cfg w'']
      by simp
    then show ?thesis by blast
  qed
  have plain: "builder_results cfg (register_all regs) w' ! i =
        Some (NewCommand (fst (regs ! i)) (fst (snd (regs ! i))))"
    if "i < length regs" and "snd (snd (regs ! i)) = None" for i
    using each [OF that(1)] that(2) by auto
  have count: "length (commands (fst (snd (assemble K (register_all regs) w)))) =
     length (commands build_root) + length regs"
    by (simp add: assemble_root commands_foldl_AddCommand non_nil_all_Some
        registered_results_Some)
      (simp add: register_all_map)
  have root: "PreRun (fst (snd (assemble K (register_all regs) w))) = None"
    by (simp add: assemble_root PreRun_foldl_AddCommand PreRun_build_root)
  show ?thesis
    using each plain count root registered_results_Some PreRun_NewCommand PreRun_build_root
    by blast
qed

theorem registered_nodes_witness:
  "builder_results example_cfg (register_all example_regs) example_world ! 0 =
     Some (NewCommand ''env'' (Some (Fn_run 0))) \<and>
   length (commands (fst (snd (assemble example_K (register_all example_regs) example_world)))) = 3"
proof -
  have a: "0 < length example_regs \<and> snd (snd (example_regs ! 0)) = None \<and>
      fst (example_regs ! 0) = ''env'' \<and> fst (snd (example_regs ! 0)) = Some (Fn_run 0)"
    by (simp add: example_regs_def)
  have b: "length (commands build_root) + length example_regs = 3"
    by code_simp
  show ?thesis
    using a b
      registered_nodes [where regs = example_regs and cfg = example_cfg and w' = example_world
        and K = example_K and w = example_world]
    by simp
qed

text \<open>
  C10 as it is stated fails: a customize callback may clear the hook. The second
  registration of the example does, and its node is attached without a hook.
\<close>

theorem registered_prerun_counterexample:
  "Use (commands (fst (snd (assemble example_K (register_all example_regs) example_world))) ! 2)
     = ''version'' \<and>
   PreRun (commands (fst (snd (assemble example_K (register_all example_regs) example_world))) ! 2)
     = None \<and>
   PreRun (commands (fst (snd (assemble example_K (register_all example_regs) example_world))) ! 2)
     \<noteq> Some Fn_setupHTTPLogger"
  by code_simp

subsection \<open>Help\<close>

lemma trim_runes_id: "leading_space runes s = 0 \<Longrightarrow> trim_runes runes s = s"
  by (simp add: trim_runes.simps)

lemma TrimSpace_id:
  "leading_space space_runes txt = 0 \<Longrightarrow> leading_space (map rev space_runes) (rev txt) = 0
     \<Longrightarrow> TrimSpace txt = txt"
  by (simp add: TrimSpace_def trim_runes_id)

text \<open>
  C4, as amended. For a command name other than \<^verbatim>\<open>--help\<close>: when the man page
  table has an entry for the name, \<^verbatim>\<open>printHelp\<close> writes the entry with the white
  space at its start and end removed, and a newline, to standard output; when it has
  none, it writes the translated \<^verbatim>\<open>Sorry, no usage text found for %q\<close> message for
  that name, and a newline. Nothing else changes. An entry that neither starts nor
  ends with white space is written as it is. The name \<^verbatim>\<open>--help\<close> is treated as
  \<^verbatim>\<open>git-lfs\<close>.
\<close>

theorem printHelp_prints:
  "(topic \<noteq> ''--help'' \<and> ManPages K topic = Some page \<longrightarrow>
      printHelp K topic w = w\<lparr>stdout := stdout w @ TrimSpace page @ [CHR 0x0A]\<rparr>) \<and>
   (topic \<noteq> ''--help'' \<and> ManPages K topic = None \<longrightarrow>
      printHelp K topic w =
        w\<lparr>stdout := stdout w @ Tr_Get K ''Sorry, no usage text found for %q'' [Str topic] @ [CHR 0x0A]\<rparr>) \<and>
   printHelp K ''--help'' w = printHelp K ''git-lfs'' w \<and>
   (leading_space space_runes page = 0 \<and> leading_space (map rev space_runes) (rev page) = 0 \<longrightarrow>
      TrimSpace page = page)"
  by (simp add: printHelp_def fmt_Println_def TrimSpace_id)

theorem printHelp_prints_witness:
  "stdout (printHelp example_K ''help'' example_world) = ''git-lfs-help'' @ [CHR 0x0A] \<and>
   stdout (printHelp example_K ''nosuch'' example_world) =
     ''Sorry, no usage text found for %q | nosuch'' @ [CHR 0x0A]"
proof -
  have a: "''help'' \<noteq> ''--help'' \<and> ManPages example_K ''help'' = Some ''git-lfs-help''"
    by code_simp
  have b: "''nosuch'' \<noteq> ''--help'' \<and> ManPages example_K ''nosuch'' = None"
    by code_simp
  have c: "leading_space space_runes ''git-lfs-help'' = 0 \<and>
      leading_space (map rev space_runes) (rev ''git-lfs-help'') = 0"
    by code_simp
  have d: "Tr_Get example_K ''Sorry, no usage text found for %q'' [Str ''nosuch''] =
      ''Sorry, no usage text found for %q | nosuch''"
    by code_simp
  have e: "stdout example_world = []"
    by code_simp
  show ?thesis
    using a b c d e
      printHelp_prints [where topic = "''help''" and K = example_K and page = "''git-lfs-help''"
        and w = example_world]
      printHelp_prints [where topic = "''nosuch''" and K = example_K and page = "''git-lfs-help''"
        and w = example_world]
    by simp
qed

text \<open>
  C4 as it is stated fails: the entry is not written verbatim. The example table has an
  entry for \<^verbatim>\<open>git-lfs\<close> that starts and ends with a newline; what is written is
  neither the entry nor the entry and a newline.
\<close>

theorem printHelp_verbatim_counterexample:
  "ManPages example_K ''git-lfs'' = Some ([CHR 0x0A] @ ''git-lfs(1)'' @ [CHR 0x0A]) \<and>
   stdout example_world = [] \<and>
   stdout (printHelp example_K ''git-lfs'' example_world) = ''git-lfs(1)'' @ [CHR 0x0A] \<and>
   stdout (printHelp example_K ''git-lfs'' example_world) \<noteq> [CHR 0x0A] @ ''git-lfs(1)'' @ [CHR 0x0A] \<and>
   stdout (printHelp example_K ''git-lfs'' example_world) \<noteq>
     [CHR 0x0A] @ ''git-lfs(1)'' @ [CHR 0x0A] @ [CHR 0x0A]"
  by code_simp

text \<open>
  C5. \<^verbatim>\<open>printHelp\<close> does for \<^verbatim>\<open>--help\<close> exactly what it does for \<^verbatim>\<open>git-lfs\<close>,
  and \<^verbatim>\<open>helpCommand\<close> without arguments prints the help of \<^verbatim>\<open>git-lfs\<close>.
\<close>

theorem printHelp_same:
  "printHelp K ''--help'' w = printHelp K ''git-lfs'' w \<and>
   helpCommand K cmd [] w = printHelp K ''git-lfs'' w \<and>
   helpCommand K cmd [''--help''] w = helpCommand K cmd [''git-lfs''] w"
  by (simp add: printHelp_def helpCommand_def)

theorem printHelp_same_witness:
  "stdout (printHelp example_K ''--help'' example_world) = ''git-lfs(1)'' @ [CHR 0x0A] \<and>
   stdout (printHelp example_K ''git-lfs'' example_world) = ''git-lfs(1)'' @ [CHR 0x0A] \<and>
   stdout (helpCommand example_K build_root [] example_world) = ''git-lfs(1)'' @ [CHR 0x0A]"
proof -
  have "stdout (printHelp example_K ''git-lfs'' example_world) = ''git-lfs(1)'' @ [CHR 0x0A]"
    by code_simp
  then show ?thesis
    using printHelp_same [where K = example_K and w = example_world and cmd = build_root]
    by simp
qed

text \<open>
  With the lookup of the concrete setting, the topic \<^verbatim>\<open>help\<close> is found in every
  root that has a child of that name.
\<close>

lemma simple_Find_help:
  "findNext (commands root) ''help'' = Some h \<Longrightarrow> simple_Find root [''help''] = (Some h, None)"
  by (simp add: simple_Find_def find_rest_def)

text \<open>
  C6. When the lookup of the arguments fails and the first argument is \<^verbatim>\<open>config\<close>
  or \<^verbatim>\<open>faq\<close>, the help command looks \<^verbatim>\<open>help\<close> up instead, and when that is found
  it calls the help function with the original arguments, so that the help of the
  topic is printed. When the lookup fails for any other first argument, it prints the
  \<^verbatim>\<open>Unknown help topic\<close> message and the usage of the root. With the help and usage
  functions that \<^verbatim>\<open>Run\<close> sets, the help function prints the help of the first
  argument and the usage is the help of the root's name.
\<close>

theorem help_alias_topics:
  "(Find K root args = (found, Some err) \<and> args \<noteq> [] \<and>
    (args ! 0 = ''config'' \<or> args ! 0 = ''faq'') \<and> Find K root [''help''] = (Some h, None) \<longrightarrow>
      helpcmd_Run K root c args w = Inr (HelpFunc K root h args w)) \<and>
   (Find K root args = (found, Some err) \<and> args \<noteq> [] \<and>
    args ! 0 \<noteq> ''config'' \<and> args ! 0 \<noteq> ''faq'' \<longrightarrow>
      helpcmd_Run K root c args w =
        Inr (snd (Usage K root (cobra_Println (Tr_Get K ''Unknown help topic %#q'' [Strs args]) w)))) \<and>
   (helpFunc root = Some Fn_helpCommand \<and> args \<noteq> [] \<longrightarrow>
      HelpFunc K root h args w = printHelp K (args ! 0) w) \<and>
   (usageFunc root = Some Fn_usageCommand \<longrightarrow>
      snd (Usage K root w) = printHelp K (Name root) w)"
  by (auto simp: helpcmd_Run_def HelpFunc_def Usage_def helpCommand_def usageCommand_def)

theorem help_alias_topics_witness:
  "map_sum id stdout (helpcmd_Run example_K example_root (helpcmd build_root) [''config''] example_world)
     = Inr (''git-lfs-config(5)'' @ [CHR 0x0A]) \<and>
   map_sum id stderr (helpcmd_Run example_K example_root (helpcmd build_root) [''config''] example_world)
     = Inr [] \<and>
   map_sum id stdout (helpcmd_Run example_K example_root (helpcmd build_root) [''nosuch''] example_world)
     = Inr (''git-lfs(1)'' @ [CHR 0x0A]) \<and>
   map_sum id stderr (helpcmd_Run example_K example_root (helpcmd build_root) [''nosuch''] example_world)
     = Inr (''Unknown help topic %#q | nosuch'' @ [CHR 0x0A])"
proof -
  have a: "Find example_K example_root [''config''] =
      (Some example_root, Some (Error ''unknown command config'')) \<and> [''config''] \<noteq> [] \<and>
      ([''config''] ! 0 = ''config'' \<or> [''config''] ! 0 = ''faq'') \<and>
      Find example_K example_root [''help''] = (Some (helpcmd build_root), None)"
    by code_simp
  have b: "Find example_K example_root [''nosuch''] =
      (Some example_root, Some (Error ''unknown command nosuch'')) \<and> [''nosuch''] \<noteq> [] \<and>
      [''nosuch''] ! 0 \<noteq> ''config'' \<and> [''nosuch''] ! 0 \<noteq> ''faq''"
    by code_simp
  have c: "stdout (HelpFunc example_K example_root (helpcmd build_root) [''config''] example_world)
      = ''git-lfs-config(5)'' @ [CHR 0x0A] \<and>
    stderr (HelpFunc example_K example_root (helpcmd build_root) [''config''] example_world) = []"
    by code_simp
  have d: "stdout (snd (Usage example_K example_root
        (cobra_Println (Tr_Get example_K ''Unknown help topic %#q'' [Strs [''nosuch'']]) example_world)))
      = ''git-lfs(1)'' @ [CHR 0x0A] \<and>
    stderr (snd (Usage example_K example_root
        (cobra_Println (Tr_Get example_K ''Unknown help topic %#q'' [Strs [''nosuch'']]) example_world)))
      = ''Unknown help topic %#q | nosuch'' @ [CHR 0x0A]"
    by code_simp
  show ?thesis
    using a b c d
      help_alias_topics [where K = example_K and root = example_root and args = "[''config'']"
        and found = "Some example_root" and err = "Error ''unknown command config''"
        and h = "helpcmd build_root" and c = "helpcmd build_root" and w = example_world]
      help_alias_topics [where K = example_K and root = example_root and args = "[''nosuch'']"
        and found = "Some example_root" and err = "Error ''unknown command nosuch''"
        and h = "helpcmd build_root" and c = "helpcmd build_root" and w = example_world]
    by simp
qed

subsection \<open>Completion\<close>

lemma bytes_Replace_zero [simp]: "bytes_Replace s old new 0 = s"
  by (simp add: bytes_Replace.simps)

lemma bytes_Replace_first:
  assumes "old \<noteq> []"
    and "\<forall>i<length pre. \<not> prefix old (drop i (pre @ old @ post))"
  shows "bytes_Replace (pre @ old @ post) old new 1 = pre @ new @ post"
  using assms(2)
proof (induction pre)
  case Nil
  show ?case
    using assms(1) by (subst bytes_Replace.simps) simp
next
  case (Cons c pre)
  have no: "\<not> prefix old (c # pre @ old @ post)"
    using Cons.prems by (metis append_Cons drop0 length_greater_0_conv list.distinct(1))
  have "\<forall>i<length pre. \<not> prefix old (drop i (pre @ old @ post))"
  proof (intro allI impI)
    fix i assume "i < length pre"
    then have "\<not> prefix old (drop (Suc i) ((c # pre) @ old @ post))"
      using Cons.prems by (metis Suc_less_eq length_Cons)
    then show "\<not> prefix old (drop i (pre @ old @ post))" by simp
  qed
  then have IH: "bytes_Replace (pre @ old @ post) old new 1 = pre @ new @ post"
    by (rule Cons.IH)
  show ?case
    using no assms(1) IH by (subst bytes_Replace.simps) simp
qed

lemma bytes_Replace_none:
  "\<forall>i<length s. \<not> prefix old (drop i s) \<Longrightarrow> bytes_Replace s old new n = s"
proof (induction s)
  case Nil
  show ?case by (subst bytes_Replace.simps) simp
next
  case (Cons c s)
  have no: "\<not> prefix old (c # s)"
    using Cons.prems by (metis drop0 length_greater_0_conv list.distinct(1))
  have "\<forall>i<length s. \<not> prefix old (drop i s)"
  proof (intro allI impI)
    fix i assume "i < length s"
    then have "\<not> prefix old (drop (Suc i) (c # s))"
      using Cons.prems by (metis Suc_less_eq length_Cons)
    then show "\<not> prefix old (drop i s)" by simp
  qed
  then have IH: "bytes_Replace s old new n = s" by (rule Cons.IH)
  show ?case
    using no IH by (subst bytes_Replace.simps) simp
qed

lemma zsh_old_nonempty: "zsh_old \<noteq> []"
  by (simp add: zsh_old_def)

lemma completion_zsh_first:
  assumes "GenZshCompletion K root = pre @ zsh_old @ post"
    and "\<forall>i<length pre. \<not> prefix zsh_old (drop i (pre @ zsh_old @ post))"
  shows "completionCmd_Run K root cmd [''zsh''] w =
    Inr (w\<lparr>stdout := stdout w @ pre @ zsh_new @ post\<rparr>)"
proof -
  have "bytes_Replace (GenZshCompletion K root) zsh_old zsh_new 1 = pre @ zsh_new @ post"
    using assms bytes_Replace_first [OF zsh_old_nonempty, of pre post zsh_new] by simp
  then show ?thesis
    by (simp add: completionCmd_Run_def write_Stdout_def)
qed

lemma completion_zsh_none:
  assumes "\<forall>i<length (GenZshCompletion K root). \<not> prefix zsh_old (drop i (GenZshCompletion K root))"
  shows "completionCmd_Run K root cmd [''zsh''] w =
    Inr (w\<lparr>stdout := stdout w @ GenZshCompletion K root\<rparr>)"
proof -
  have "bytes_Replace (GenZshCompletion K root) zsh_old zsh_new 1 = GenZshCompletion K root"
    using assms by (rule bytes_Replace_none)
  then show ?thesis
    by (simp add: completionCmd_Run_def write_Stdout_def)
qed

text \<open>
  C7. For \<^verbatim>\<open>bash\<close> the command writes the script of cobra followed by the trailer
  line \<^verbatim>\<open>_git_lfs() { __start_git-lfs; }\<close>, so what it writes ends with that line.
  For \<^verbatim>\<open>zsh\<close> it writes the script of cobra with the first occurrence of
  \<^verbatim>\<open>requestComp="${words[1]}\<close> replaced by \<^verbatim>\<open>requestComp="git-${words[1]#*git-}\<close>:
  the text before and the text after that occurrence stay as they are, so the rewritten
  pattern stands where the original stood. A script without an occurrence is written
  unchanged.
\<close>

theorem completion_bash_zsh:
  "completionCmd_Run K root cmd [''bash''] w =
     Inr (w\<lparr>stdout := stdout w @ GenBashCompletion K root @ bash_trailer\<rparr>) \<and>
   suffix bash_trailer (stdout w @ GenBashCompletion K root @ bash_trailer) \<and>
   bash_trailer = ''_git_lfs() { __start_git-lfs; }'' @ [CHR 0x0A] \<and>
   zsh_old = ''requestComp=\"${words[1]}'' \<and>
   zsh_new = ''requestComp=\"git-${words[1]#*git-}'' \<and>
   zsh_new \<noteq> zsh_old \<and>
   (GenZshCompletion K root = pre @ ''requestComp=\"${words[1]}'' @ post \<and>
    (\<forall>i<length pre.
       \<not> prefix ''requestComp=\"${words[1]}'' (drop i (pre @ ''requestComp=\"${words[1]}'' @ post))) \<longrightarrow>
      completionCmd_Run K root cmd [''zsh''] w =
        Inr (w\<lparr>stdout := stdout w @ pre @ ''requestComp=\"git-${words[1]#*git-}'' @ post\<rparr>)) \<and>
   ((\<forall>i<length (GenZshCompletion K root).
       \<not> prefix ''requestComp=\"${words[1]}'' (drop i (GenZshCompletion K root))) \<longrightarrow>
      completionCmd_Run K root cmd [''zsh''] w =
        Inr (w\<lparr>stdout := stdout w @ GenZshCompletion K root\<rparr>))"
proof -
  have bash: "completionCmd_Run K root cmd [''bash''] w =
     Inr (w\<lparr>stdout := stdout w @ GenBashCompletion K root @ bash_trailer\<rparr>)"
    by (simp add: completionCmd_Run_def write_Stdout_def)
  have ends: "suffix bash_trailer (stdout w @ GenBashCompletion K root @ bash_trailer)"
    by (simp add: suffix_def)
  have trailer: "bash_trailer = ''_git_lfs() { __start_git-lfs; }'' @ [CHR 0x0A]"
    by (simp add: bash_trailer_def)
  have old: "zsh_old = ''requestComp=\"${words[1]}''"
    by (simp add: zsh_old_def)
  have new: "zsh_new = ''requestComp=\"git-${words[1]#*git-}''"
    by (simp add: zsh_new_def)
  have differ: "zsh_new \<noteq> zsh_old"
    by (simp add: zsh_old_def zsh_new_def)
  have first: "completionCmd_Run K root cmd [''zsh''] w =
        Inr (w\<lparr>stdout := stdout w @ pre @ zsh_new @ post\<rparr>)"
    if "GenZshCompletion K root = pre @ zsh_old @ post"
      and "\<forall>i<length pre. \<not> prefix zsh_old (drop i (pre @ zsh_old @ post))"
    using that by (rule completion_zsh_first)
  have none: "completionCmd_Run K root cmd [''zsh''] w =
        Inr (w\<lparr>stdout := stdout w @ GenZshCompletion K root\<rparr>)"
    if "\<forall>i<length (GenZshCompletion K root). \<not> prefix zsh_old (drop i (GenZshCompletion K root))"
    using that by (rule completion_zsh_none)
  show ?thesis
    using bash ends trailer differ first none
    unfolding old new by blast
qed

theorem completion_bash_zsh_witness:
  "map_sum id stdout (completionCmd_Run example_K build_root (completionCmd build_root) [''bash'']
      example_world) =
     Inr (''# bash completion for git-lfs'' @ [CHR 0x0A] @
          ''_git_lfs() { __start_git-lfs; }'' @ [CHR 0x0A]) \<and>
   map_sum id stdout (completionCmd_Run example_K build_root (completionCmd build_root) [''zsh'']
      example_world) =
     Inr ''a; requestComp=\"git-${words[1]#*git-} b; requestComp=\"${words[1]} c''"
proof -
  note inst = completion_bash_zsh [where K = example_K and root = build_root
      and cmd = "completionCmd build_root" and w = example_world
      and pre = "''a; ''" and post = "'' b; requestComp=\"${words[1]} c''"]
  have gen: "GenBashCompletion example_K build_root = ''# bash completion for git-lfs'' @ [CHR 0x0A]"
    by code_simp
  have out: "stdout example_world = []"
    by code_simp
  have first: "GenZshCompletion example_K build_root =
        ''a; '' @ ''requestComp=\"${words[1]}'' @ '' b; requestComp=\"${words[1]} c'' \<and>
      (\<forall>i<length ''a; ''.
         \<not> prefix ''requestComp=\"${words[1]}''
             (drop i (''a; '' @ ''requestComp=\"${words[1]}'' @ '' b; requestComp=\"${words[1]} c'')))"
    by code_simp
  have bash: "completionCmd_Run example_K build_root (completionCmd build_root) [''bash'']
      example_world =
      Inr (example_world\<lparr>stdout := stdout example_world @
        GenBashCompletion example_K build_root @ bash_trailer\<rparr>)"
    using inst by (rule conjunct1)
  have trailer: "bash_trailer = ''_git_lfs() { __start_git-lfs; }'' @ [CHR 0x0A]"
    using inst by blast
  have zsh: "completionCmd_Run example_K build_root (completionCmd build_root) [''zsh'']
      example_world =
      Inr (example_world\<lparr>stdout := stdout example_world @
        ''a; '' @ ''requestComp=\"git-${words[1]#*git-}'' @ '' b; requestComp=\"${words[1]} c''\<rparr>)"
    using inst first by blast
  show ?thesis
    by (simp add: bash zsh trailer gen out)
qed

lemma ValidateArgs_completionCmd:
  "ValidateArgs (completionCmd root) args =
     (if length args \<noteq> 1 then Some (AcceptsArgs 1 (length args))
      else if hd args \<notin> set valid_shells then Some (InvalidArgument (hd args))
      else None)"
proof (cases args)
  case Nil
  then show ?thesis by (simp add: ValidateArgs_def completionCmd_def)
next
  case (Cons a as)
  then show ?thesis
    by (cases as) (simp_all add: ValidateArgs_def completionCmd_def valid_shells_def)
qed

text \<open>
  C8. The completion command's validator accepts an argument list exactly when it is
  one of \<^verbatim>\<open>bash\<close>, \<^verbatim>\<open>zsh\<close>, \<^verbatim>\<open>fish\<close>, \<^verbatim>\<open>powershell\<close> alone. For every other
  argument list, executing the command returns an error and leaves the world as it
  was: the run function is not called and nothing is written. The run function itself
  writes nothing for a first argument that is not one of the four.
\<close>

theorem completion_validates_shell:
  "(ValidateArgs (completionCmd root) args = None \<longleftrightarrow>
      (\<exists>shell \<in> set valid_shells. args = [shell])) \<and>
   valid_shells = [''bash'', ''zsh'', ''fish'', ''powershell''] \<and>
   (\<not> (\<exists>shell \<in> set valid_shells. args = [shell]) \<longrightarrow>
      (\<exists>err. execute K cfg r (completionCmd root) args w = Inr (Some err, w))) \<and>
   (a \<notin> set valid_shells \<longrightarrow> completionCmd_Run K r (completionCmd root) (a # rest) w = Inr w)"
proof -
  have iff: "ValidateArgs (completionCmd root) args = None \<longleftrightarrow>
      (\<exists>shell \<in> set valid_shells. args = [shell])"
  proof (cases args)
    case Nil
    then show ?thesis by (simp add: ValidateArgs_completionCmd)
  next
    case (Cons a as)
    then show ?thesis by (cases as) (auto simp: ValidateArgs_completionCmd)
  qed
  have "\<exists>err. execute K cfg r (completionCmd root) args w = Inr (Some err, w)"
    if "\<not> (\<exists>shell \<in> set valid_shells. args = [shell])"
  proof -
    from that iff obtain err where "ValidateArgs (completionCmd root) args = Some err"
      by (cases "ValidateArgs (completionCmd root) args") auto
    moreover have "cmd_Run (completionCmd root) = Some Fn_completionRun"
      by (simp add: completionCmd_def)
    ultimately show ?thesis by (simp add: execute_def)
  qed
  moreover have "completionCmd_Run K r (completionCmd root) (a # rest) w = Inr w"
    if "a \<notin> set valid_shells"
    using that by (simp add: completionCmd_Run_def valid_shells_def)
  ultimately show ?thesis using iff by (simp add: valid_shells_def)
qed

theorem completion_validates_shell_witness:
  "ValidateArgs (completionCmd build_root) [''fish''] = None \<and>
   ValidateArgs (completionCmd build_root) [''cobol''] \<noteq> None \<and>
   map_sum id snd (execute example_K example_cfg example_root (completionCmd build_root) [''cobol'']
     example_world) = Inr example_world \<and>
   map_sum id snd (execute example_K example_cfg example_root (completionCmd build_root)
     [''bash'', ''zsh''] example_world) = Inr example_world \<and>
   completionCmd_Run example_K example_root (completionCmd build_root) [''cobol''] example_world
     = Inr example_world"
proof -
  have ok: "\<exists>shell \<in> set valid_shells. [''fish''] = [shell]"
    by (simp add: valid_shells_def)
  have bad: "\<not> (\<exists>shell \<in> set valid_shells. [''cobol''] = [shell]) \<and> ''cobol'' \<notin> set valid_shells"
    by (simp add: valid_shells_def)
  have two: "\<not> (\<exists>shell \<in> set valid_shells. [''bash'', ''zsh''] = [shell])"
    by simp
  show ?thesis
    using ok bad two
      completion_validates_shell [where root = build_root and args = "[''fish'']"]
      completion_validates_shell [where root = build_root and args = "[''cobol'']"
        and K = example_K and cfg = example_cfg and r = example_root and w = example_world
        and a = "''cobol''" and rest = "[]"]
      completion_validates_shell [where root = build_root and args = "[''bash'', ''zsh'']"
        and K = example_K and cfg = example_cfg and r = example_root and w = example_world]
    by auto
qed

subsection \<open>The HTTP statistics hook\<close>

lemma log_dir_eq:
  "log_dir cfg = (if LocalLogDir cfg = [] then ''http'' else LocalLogDir cfg @ ''/http'')"
  by (simp add: log_dir_def filepath_Join_def)

lemma log_dir_nonempty: "log_dir cfg \<noteq> []"
  by (simp add: log_dir_eq)

lemma log_file_eq: "log_file cfg w = log_dir cfg @ ''/http-'' @ itoa (unix_time w) @ ''.log''"
  using log_dir_nonempty [of cfg] by (simp add: log_file_def filepath_Join_def)

lemma path_in_ancestors: "path \<in> set (ancestors path)"
  by (simp add: ancestors_def)

lemma setupHTTPLogger_off:
  "os_Getenv ''GIT_LOG_STATS'' w = [] \<Longrightarrow> setupHTTPLogger K cfg cmd args w = w"
  by (simp add: setupHTTPLogger_def)

lemma setupHTTPLogger_mkdir_fails:
  assumes "os_Getenv ''GIT_LOG_STATS'' w \<noteq> []" and "mkdir_error w (log_dir cfg) = Some err"
  shows "setupHTTPLogger K cfg cmd args w =
    w\<lparr>stderr := stderr w @ Tr_Get K ''Error logging HTTP stats: %s'' [Err err] @ [CHR 0x0A]\<rparr>"
  using assms
  by (simp add: setupHTTPLogger_def tools_MkdirAll_def log_dir_def fmt_Fprintln_Stderr_def)

lemma setupHTTPLogger_create_fails:
  assumes "os_Getenv ''GIT_LOG_STATS'' w \<noteq> []" and "mkdir_error w (log_dir cfg) = None"
    and "create_error w (log_file cfg w) = Some err"
  shows "setupHTTPLogger K cfg cmd args w =
    w\<lparr>dirs := dirs w @ filter (\<lambda>d. d \<notin> set (dirs w)) (ancestors (log_dir cfg)),
      stderr := stderr w @ Tr_Get K ''Error logging HTTP stats: %s'' [Err err] @ [CHR 0x0A]\<rparr>"
  using assms
  by (simp add: setupHTTPLogger_def tools_MkdirAll_def log_dir_def log_file_def os_Create_def
      fmt_Fprintln_Stderr_def Let_def)

lemma setupHTTPLogger_succeeds:
  assumes "os_Getenv ''GIT_LOG_STATS'' w \<noteq> []" and "mkdir_error w (log_dir cfg) = None"
    and "create_error w (log_file cfg w) = None"
  shows "setupHTTPLogger K cfg cmd args w =
    w\<lparr>dirs := dirs w @ filter (\<lambda>d. d \<notin> set (dirs w)) (ancestors (log_dir cfg)),
      files := files w @ filter (\<lambda>f. f \<notin> set (files w)) [log_file cfg w],
      log_sink := Some (log_file cfg w)\<rparr>"
  using assms
  by (simp add: setupHTTPLogger_def tools_MkdirAll_def log_dir_def log_file_def os_Create_def
      LogHTTPStats_def Let_def)

lemma execute_after_hook:
  assumes "cmd_Run cmd = Some r" and "PreRun cmd = Some Fn_setupHTTPLogger"
    and "ValidateArgs cmd args = None"
  shows "execute K cfg root cmd args w =
    (case call_run K root r cmd args (setupHTTPLogger K cfg cmd args w) of
       Inl p \<Rightarrow> Inl p
     | Inr w2 \<Rightarrow> Inr (None, w2))"
  using assms by (simp add: execute_def call_pre_run_def)

text \<open>
  C9. When \<^verbatim>\<open>GIT_LOG_STATS\<close> is unset or empty, the hook leaves the world as it is.
  Otherwise it creates the log directory with its ancestors and, in it, the file
  \<^verbatim>\<open>http-<unix seconds>.log\<close>, and hands that file to the API client as its log
  sink. When the directory or the file cannot be created, it writes the translated
  \<^verbatim>\<open>Error logging HTTP stats\<close> message to standard error, creates no file and
  leaves the log sink as it was. In every case the hook returns, and the run function
  of the command is called in the world the hook left.
\<close>

theorem setupHTTPLogger_cases:
  "(os_Getenv ''GIT_LOG_STATS'' w = [] \<longrightarrow> setupHTTPLogger K cfg cmd args w = w) \<and>
   (os_Getenv ''GIT_LOG_STATS'' w \<noteq> [] \<and> mkdir_error w (log_dir cfg) = Some err \<longrightarrow>
      stderr (setupHTTPLogger K cfg cmd args w) =
        stderr w @ Tr_Get K ''Error logging HTTP stats: %s'' [Err err] @ [CHR 0x0A] \<and>
      files (setupHTTPLogger K cfg cmd args w) = files w \<and>
      log_sink (setupHTTPLogger K cfg cmd args w) = log_sink w \<and>
      stdout (setupHTTPLogger K cfg cmd args w) = stdout w) \<and>
   (os_Getenv ''GIT_LOG_STATS'' w \<noteq> [] \<and> mkdir_error w (log_dir cfg) = None \<and>
    create_error w (log_file cfg w) = Some err \<longrightarrow>
      set (ancestors (log_dir cfg)) \<subseteq> set (dirs (setupHTTPLogger K cfg cmd args w)) \<and>
      stderr (setupHTTPLogger K cfg cmd args w) =
        stderr w @ Tr_Get K ''Error logging HTTP stats: %s'' [Err err] @ [CHR 0x0A] \<and>
      files (setupHTTPLogger K cfg cmd args w) = files w \<and>
      log_sink (setupHTTPLogger K cfg cmd args w) = log_sink w \<and>
      stdout (setupHTTPLogger K cfg cmd args w) = stdout w) \<and>
   (os_Getenv ''GIT_LOG_STATS'' w \<noteq> [] \<and> mkdir_error w (log_dir cfg) = None \<and>
    create_error w (log_file cfg w) = None \<longrightarrow>
      set (ancestors (log_dir cfg)) \<subseteq> set (dirs (setupHTTPLogger K cfg cmd args w)) \<and>
      log_dir cfg \<in> set (dirs (setupHTTPLogger K cfg cmd args w)) \<and>
      log_file cfg w \<in> set (files (setupHTTPLogger K cfg cmd args w)) \<and>
      log_file cfg w = log_dir cfg @ ''/http-'' @ itoa (unix_time w) @ ''.log'' \<and>
      log_sink (setupHTTPLogger K cfg cmd args w) = Some (log_file cfg w) \<and>
      stderr (setupHTTPLogger K cfg cmd args w) = stderr w \<and>
      stdout (setupHTTPLogger K cfg cmd args w) = stdout w) \<and>
   (cmd_Run cmd = Some r \<and> PreRun cmd = Some Fn_setupHTTPLogger \<and> ValidateArgs cmd args = None \<longrightarrow>
      execute K cfg root cmd args w =
        (case call_run K root r cmd args (setupHTTPLogger K cfg cmd args w) of
           Inl p \<Rightarrow> Inl p
         | Inr w2 \<Rightarrow> Inr (None, w2)))"
proof (intro conjI impI)
  assume "os_Getenv ''GIT_LOG_STATS'' w = []"
  then show "setupHTTPLogger K cfg cmd args w = w"
    by (rule setupHTTPLogger_off)
next
  assume a: "os_Getenv ''GIT_LOG_STATS'' w \<noteq> [] \<and> mkdir_error w (log_dir cfg) = Some err"
  note eq = setupHTTPLogger_mkdir_fails [of w cfg err K cmd args]
  from a eq show "stderr (setupHTTPLogger K cfg cmd args w) =
      stderr w @ Tr_Get K ''Error logging HTTP stats: %s'' [Err err] @ [CHR 0x0A]" by simp
  from a eq show "files (setupHTTPLogger K cfg cmd args w) = files w" by simp
  from a eq show "log_sink (setupHTTPLogger K cfg cmd args w) = log_sink w" by simp
  from a eq show "stdout (setupHTTPLogger K cfg cmd args w) = stdout w" by simp
next
  assume a: "os_Getenv ''GIT_LOG_STATS'' w \<noteq> [] \<and> mkdir_error w (log_dir cfg) = None \<and>
    create_error w (log_file cfg w) = Some err"
  note eq = setupHTTPLogger_create_fails [of w cfg err K cmd args]
  from a eq show "set (ancestors (log_dir cfg)) \<subseteq> set (dirs (setupHTTPLogger K cfg cmd args w))"
    by auto
  from a eq show "stderr (setupHTTPLogger K cfg cmd args w) =
      stderr w @ Tr_Get K ''Error logging HTTP stats: %s'' [Err err] @ [CHR 0x0A]" by simp
  from a eq show "files (setupHTTPLogger K cfg cmd args w) = files w" by simp
  from a eq show "log_sink (setupHTTPLogger K cfg cmd args w) = log_sink w" by simp
  from a eq show "stdout (setupHTTPLogger K cfg cmd args w) = stdout w" by simp
next
  assume a: "os_Getenv ''GIT_LOG_STATS'' w \<noteq> [] \<and> mkdir_error w (log_dir cfg) = None \<and>
    create_error w (log_file cfg w) = None"
  note eq = setupHTTPLogger_succeeds [of w cfg K cmd args]
  from a eq show sub: "set (ancestors (log_dir cfg)) \<subseteq> set (dirs (setupHTTPLogger K cfg cmd args w))"
    by auto
  from sub show "log_dir cfg \<in> set (dirs (setupHTTPLogger K cfg cmd args w))"
    using path_in_ancestors by blast
  from a eq show "log_file cfg w \<in> set (files (setupHTTPLogger K cfg cmd args w))" by auto
  show "log_file cfg w = log_dir cfg @ ''/http-'' @ itoa (unix_time w) @ ''.log''"
    by (rule log_file_eq)
  from a eq show "log_sink (setupHTTPLogger K cfg cmd args w) = Some (log_file cfg w)" by simp
  from a eq show "stderr (setupHTTPLogger K cfg cmd args w) = stderr w" by simp
  from a eq show "stdout (setupHTTPLogger K cfg cmd args w) = stdout w" by simp
next
  assume "cmd_Run cmd = Some r \<and> PreRun cmd = Some Fn_setupHTTPLogger \<and> ValidateArgs cmd args = None"
  then show "execute K cfg root cmd args w =
        (case call_run K root r cmd args (setupHTTPLogger K cfg cmd args w) of
           Inl p \<Rightarrow> Inl p
         | Inr w2 \<Rightarrow> Inr (None, w2))"
    by (simp add: execute_after_hook)
qed

theorem setupHTTPLogger_cases_witness:
  "setupHTTPLogger example_K example_cfg (NewCommand ''env'' (Some (Fn_run 0))) [] example_world
     = example_world \<and>
   log_sink (setupHTTPLogger example_K example_cfg (NewCommand ''env'' (Some (Fn_run 0))) []
     world_logging) = Some ''/repo/.git/lfs/logs/http/http-1700000000.log'' \<and>
   stderr (setupHTTPLogger example_K example_cfg (NewCommand ''env'' (Some (Fn_run 0))) []
     world_mkdir_fails) = ''Error logging HTTP stats: %s | permission denied'' @ [CHR 0x0A] \<and>
   log_sink (setupHTTPLogger example_K example_cfg (NewCommand ''env'' (Some (Fn_run 0))) []
     world_mkdir_fails) = None \<and>
   stderr (setupHTTPLogger example_K example_cfg (NewCommand ''env'' (Some (Fn_run 0))) []
     world_create_fails) = ''Error logging HTTP stats: %s | disk full'' @ [CHR 0x0A] \<and>
   log_sink (setupHTTPLogger example_K example_cfg (NewCommand ''env'' (Some (Fn_run 0))) []
     world_create_fails) = None \<and>
   map_sum id fst (execute example_K example_cfg example_root (NewCommand ''env'' (Some (Fn_run 0))) []
     world_mkdir_fails) = Inr None"
proof -
  have off: "os_Getenv ''GIT_LOG_STATS'' example_world = []"
    by code_simp
  have on: "os_Getenv ''GIT_LOG_STATS'' world_logging \<noteq> [] \<and>
      mkdir_error world_logging (log_dir example_cfg) = None \<and>
      create_error world_logging (log_file example_cfg world_logging) = None"
    by code_simp
  have path: "log_file example_cfg world_logging = ''/repo/.git/lfs/logs/http/http-1700000000.log''"
    by code_simp
  have mk: "os_Getenv ''GIT_LOG_STATS'' world_mkdir_fails \<noteq> [] \<and>
      mkdir_error world_mkdir_fails (log_dir example_cfg) = Some (Error ''permission denied'') \<and>
      stderr world_mkdir_fails = [] \<and> log_sink world_mkdir_fails = None \<and>
      Tr_Get example_K ''Error logging HTTP stats: %s'' [Err (Error ''permission denied'')] =
        ''Error logging HTTP stats: %s | permission denied''"
    by code_simp
  have cr: "os_Getenv ''GIT_LOG_STATS'' world_create_fails \<noteq> [] \<and>
      mkdir_error world_create_fails (log_dir example_cfg) = None \<and>
      create_error world_create_fails (log_file example_cfg world_create_fails) =
        Some (Error ''disk full'') \<and>
      stderr world_create_fails = [] \<and> log_sink world_create_fails = None \<and>
      Tr_Get example_K ''Error logging HTTP stats: %s'' [Err (Error ''disk full'')] =
        ''Error logging HTTP stats: %s | disk full''"
    by code_simp
  have cmd: "cmd_Run (NewCommand ''env'' (Some (Fn_run 0))) = Some (Fn_run 0) \<and>
      PreRun (NewCommand ''env'' (Some (Fn_run 0))) = Some Fn_setupHTTPLogger \<and>
      ValidateArgs (NewCommand ''env'' (Some (Fn_run 0))) [] = None"
    by code_simp
  have run: "map_sum id fst
      (case call_run example_K example_root (Fn_run 0) (NewCommand ''env'' (Some (Fn_run 0))) []
          (setupHTTPLogger example_K example_cfg (NewCommand ''env'' (Some (Fn_run 0))) []
             world_mkdir_fails) of
         Inl p \<Rightarrow> Inl p
       | Inr w2 \<Rightarrow> Inr (None, w2)) = Inr None"
    by (simp add: call_run_def)
  show ?thesis
    using off on path mk cr cmd run
      setupHTTPLogger_cases [where w = example_world and K = example_K and cfg = example_cfg
        and cmd = "NewCommand ''env'' (Some (Fn_run 0))" and args = "[]"]
      setupHTTPLogger_cases [where w = world_logging and K = example_K and cfg = example_cfg
        and cmd = "NewCommand ''env'' (Some (Fn_run 0))" and args = "[]"]
      setupHTTPLogger_cases [where w = world_mkdir_fails and K = example_K and cfg = example_cfg
        and cmd = "NewCommand ''env'' (Some (Fn_run 0))" and args = "[]"
        and err = "Error ''permission denied''" and r = "Fn_run 0" and root = example_root]
      setupHTTPLogger_cases [where w = world_create_fails and K = example_K and cfg = example_cfg
        and cmd = "NewCommand ''env'' (Some (Fn_run 0))" and args = "[]"
        and err = "Error ''disk full''"]
    by simp
qed

end
